theory Spec2Isabelle
  imports Complex_Main "HOL-Library.AList"
begin

unbundle bit_operations_syntax

section \<open>Python values, exceptions and byte strings\<close>

text \<open>
  The module \<^verbatim>\<open>laikaboss/modules/meta_pe.py\<close> is Python 2: a \<^verbatim>\<open>str\<close> is a byte
  string, modelled as \<^typ>\<open>string\<close> (a list of 8-bit characters). Integers are unbounded
  (\<^typ>\<open>int\<close>). The exceptions the module names, and the built-in ones its statements can
  raise, are the constructors of \<open>exn\<close>.
\<close>

datatype exn =
    QuitScanException
  | GlobalScanTimeoutError
  | GlobalModuleTimeoutError
  | PEFormatError
  | KeyError
  | TypeError
  | AttributeError
  | IndexError
  | ValueError

text \<open>
  The values handed to \<^verbatim>\<open>scanObject.addMetadata\<close> are heterogeneous; a dictionary is an
  association list with unique keys (\<^const>\<open>AList.update\<close> replaces the value of a key
  that is present and appends a new key at the end).
\<close>

datatype pyval =
    PyNone
  | PyInt int
  | PyStr string
  | PyFloat real
  | PyList "pyval list"
  | PyDict "(string \<times> pyval) list"

type_synonym pydict = "(string \<times> pyval) list"

definition opt_int :: "int option \<Rightarrow> pyval" where
  "opt_int v = (case v of None \<Rightarrow> PyNone | Some i \<Rightarrow> PyInt i)"

definition opt_str :: "string option \<Rightarrow> pyval" where
  "opt_str v = (case v of None \<Rightarrow> PyNone | Some s \<Rightarrow> PyStr s)"

definition get_default :: "'a option \<Rightarrow> 'a \<Rightarrow> 'a" where
  \<comment> \<open>\<^verbatim>\<open>d.get(key, default)\<close>, the lookup \<^verbatim>\<open>d.get(key)\<close> being the option\<close>
  "get_default v d = (case v of None \<Rightarrow> d | Some x \<Rightarrow> x)"

subsection \<open>Hexadecimal output\<close>

definition hexdigits_lower :: string where
  "hexdigits_lower = ''0123456789abcdef''"

definition hexdigits_upper :: string where
  "hexdigits_upper = ''0123456789ABCDEF''"

definition hexlify :: "string \<Rightarrow> string" where
  \<comment> \<open>\<^verbatim>\<open>binascii.hexlify\<close>: two lower-case digits for each byte\<close>
  "hexlify bs =
     concat (map (\<lambda>c. [hexdigits_lower ! (of_char c div 16), hexdigits_lower ! (of_char c mod 16)]) bs)"

function hex_digits :: "string \<Rightarrow> nat \<Rightarrow> string" where
  "hex_digits alphabet n =
     (if n < 16 then [alphabet ! n]
      else hex_digits alphabet (n div 16) @ [alphabet ! (n mod 16)])"
  by pat_completeness auto
termination
  by (relation "measure snd") auto

declare hex_digits.simps [simp del]

definition zfill :: "nat \<Rightarrow> string \<Rightarrow> string" where
  "zfill w s = replicate (w - length s) CHR ''0'' @ s"

definition fmt_08X :: "int \<Rightarrow> string" where
  \<comment> \<open>\<^verbatim>\<open>'%08X' % v\<close>: upper-case digits, zero-padded to width 8, the sign counted\<close>
  "fmt_08X v =
     (if v < 0 then CHR ''-'' # zfill 7 (hex_digits hexdigits_upper (nat (- v)))
      else zfill 8 (hex_digits hexdigits_upper (nat v)))"

definition py_hex :: "int \<Rightarrow> string" where
  \<comment> \<open>\<^verbatim>\<open>hex(v)\<close> of a plain integer\<close>
  "py_hex v =
     (if v < 0 then ''-0x'' @ hex_digits hexdigits_lower (nat (- v))
      else ''0x'' @ hex_digits hexdigits_lower (nat v))"

definition unpack_L :: "string \<Rightarrow> int" where
  \<comment> \<open>\<^verbatim>\<open>struct.unpack('<L', bs)[0]\<close>: the bytes as a little-endian unsigned integer\<close>
  "unpack_L bs = foldr (\<lambda>c n. of_char c + 256 * n) bs 0"

definition slice :: "nat \<Rightarrow> nat \<Rightarrow> 'a list \<Rightarrow> 'a list" where
  \<comment> \<open>\<^verbatim>\<open>xs[i:j]\<close> for non-negative \<open>i\<close>, \<open>j\<close>\<close>
  "slice i j xs = take (j - i) (drop i xs)"

section \<open>parseRSDS\<close>

text \<open>
  \<^verbatim>\<open>re.compile('RSDS.{24,1024}\.pdb').findall(buffer)\<close>. The pattern is compiled with no
  flag, so \<^verbatim>\<open>.\<close> matches every byte but the newline \<open>0x0A\<close>. At a position where
  \<^verbatim>\<open>RSDS\<close> stands, the greedy repetition first takes as many bytes as it can (at most 1024,
  none a newline) and gives them back one at a time, down to 24, until \<^verbatim>\<open>.pdb\<close> follows.
  \<^verbatim>\<open>findall\<close> scans from the left and resumes after the end of each match.
\<close>

definition dot :: "char \<Rightarrow> bool" where
  "dot c \<longleftrightarrow> c \<noteq> CHR 0x0A"

definition greedy_max :: "string \<Rightarrow> nat" where
  "greedy_max s = min 1024 (length (takeWhile dot s))"

fun backtrack :: "string \<Rightarrow> nat \<Rightarrow> nat option" where
  "backtrack s 0 = None"
| "backtrack s (Suc k) =
     (if Suc k < 24 then None
      else if take 4 (drop (Suc k) s) = ''.pdb'' then Some (Suc k)
      else backtrack s k)"

definition match_at :: "string \<Rightarrow> string option" where
  \<comment> \<open>the match of the pattern at the head of \<open>s\<close>, if there is one\<close>
  "match_at s =
     (if take 4 s = ''RSDS'' then
        (case backtrack (drop 4 s) (greedy_max (drop 4 s)) of
           None \<Rightarrow> None
         | Some k \<Rightarrow> Some (take (4 + k + 4) s))
      else None)"

fun findall :: "string \<Rightarrow> string list" where
  "findall [] = []"
| "findall (c # cs) =
     (case match_at (c # cs) of
        None \<Rightarrow> findall cs
      | Some m \<Rightarrow> m # findall (drop (length m - 1) cs))"

definition parseRSDS :: "string \<Rightarrow> pydict" where
  "parseRSDS buffer =
     (let x = findall buffer in
      if x \<noteq> [] \<and> last x \<noteq> [] then
        (let match = last x in
         [(''guid'', PyStr (hexlify (slice 4 8 match) @ ''-'' @ hexlify (slice 8 10 match) @ ''-''
                           @ hexlify (slice 10 12 match) @ ''-'' @ hexlify (slice 12 20 match))),
          (''age'', PyInt (unpack_L (slice 20 24 match))),
          (''pdb'', PyStr (drop 24 match))])
      else [])"

section \<open>parseRich\<close>

record RichHeader =
  rich_values :: "int list"
  rich_checksum :: int

fun rich_loop :: "int list \<Rightarrow> exn + pyval list" where
  "rich_loop [] = Inr []"
| "rich_loop [v] = Inl IndexError"
| "rich_loop (v # c # rest) =
     (case rich_loop rest of
        Inl e \<Rightarrow> Inl e
      | Inr data \<Rightarrow>
          Inr (PyDict [(''Id'', PyInt (drop_bit 16 v)),
                       (''Version'', PyInt (v AND 0xffff)),
                       (''Count'', PyInt c)] # data))"

definition parseRich :: "RichHeader option \<Rightarrow> exn + pydict" where
  "parseRich rich_header =
     (case rich_header of
        None \<Rightarrow> Inr []
      | Some rh \<Rightarrow>
          (case rich_loop (rich_values rh) of
             Inl e \<Rightarrow> Inl e
           | Inr data \<Rightarrow>
               Inr [(''Rich Header Values'', PyList data),
                    (''Checksum'', PyInt (rich_checksum rh))]))"

section \<open>What pefile gives of a PE file\<close>

text \<open>
  \<^verbatim>\<open>pefile\<close> is a library the module calls; what it computes from the bytes is not part
  of the module. A \<open>PE\<close> value records what each call and attribute read of \<^verbatim>\<open>_run\<close> on the
  object \<^verbatim>\<open>pe\<close> yields: a value, or the exception it raises. A dictionary lookup with
  \<^verbatim>\<open>.get\<close> is an option (\<open>None\<close> when the key is missing), so that the defaults of the
  source are written in the model.
\<close>

record pe_section =
  sec_Name :: "string option"
  sec_PointerToRawData :: "int option"
  sec_VirtualAddress :: "int option"
  sec_Misc_VirtualSize :: "int option"
  sec_SizeOfRawData :: "int option"
  sec_MD5 :: "string option"
  sec_SHA1 :: "string option"
  sec_SHA256 :: "string option"
  sec_Entropy :: "real option"
  sec_Flags :: "string list option"
  sec_Structure :: "string option"

record imp =
  imp_DLL :: "string option"
  imp_Ordinal :: "int option"
  imp_Name :: "string option"

record dump =
  PE_Sections :: "pe_section list option"
  Imported_symbols :: "imp list list option"
  dump_Flags :: "string list option"
  DllCharacteristics :: "string list option"

record res_data =
  res_lang :: int
  res_sublang :: int
  OffsetToData :: int
  res_Size :: int
  struct_name :: string

record res_lang_entry =
  e_id :: "int option"
  e_data :: "exn + res_data"

record res_name_entry =
  entry_directory :: "exn + res_lang_entry list"

record res_type_entry =
  resource_id :: "int option"
  resource_directory :: "exn + res_name_entry list"

record PE =
  dump_dict :: "exn + dump"
  get_data :: "int option \<Rightarrow> int option \<Rightarrow> exn + string"
  NumberOfSections :: int
  TimeDateStamp :: int
  Machine :: int
  Magic :: int
  Subsystem :: int
  SizeOfStackReserve :: int
  SizeOfStackCommit :: int
  SizeOfHeapReserve :: int
  SizeOfHeapCommit :: int
  AddressOfEntryPoint :: int
  ImageBase :: int
  DIRECTORY_ENTRY_EXPORT :: "exn + string option list"
  get_imphash :: "exn + string"
  DIRECTORY_ENTRY_RESOURCE :: "exn + res_type_entry list"
  RICH_HEADER :: "RichHeader option"

text \<open>
  The tables and functions of \<^verbatim>\<open>pefile\<close>, \<^verbatim>\<open>datetime\<close> and \<^verbatim>\<open>hashlib\<close> the module uses.
  \<open>fromtimestamp_isoformat\<close> is \<^verbatim>\<open>datetime.fromtimestamp(t).isoformat()\<close>, which depends on
  the local time zone and raises on a value out of range.
\<close>

record library =
  MACHINE_TYPE :: "int \<Rightarrow> string option"
  SUBSYSTEM_TYPE :: "int \<Rightarrow> string option"
  RESOURCE_TYPE :: "int \<Rightarrow> string option"
  LANG :: "int \<Rightarrow> string option"
  get_sublang_name_for_lang :: "int \<Rightarrow> int \<Rightarrow> string"
  fromtimestamp_isoformat :: "int \<Rightarrow> exn + string"
  sha256_hexdigest :: "string \<Rightarrow> string"
  sha1_hexdigest :: "string \<Rightarrow> string"
  md5_hexdigest :: "string \<Rightarrow> string"

section \<open>The scan object and the state of a run\<close>

text \<open>
  \<^verbatim>\<open>scanObject.addMetadata(module, key, value)\<close> belongs to the object model of the host;
  the module's effect on the scan object is the sequence of these calls, kept in
  \<open>moduleMetadata\<close> in the order they are made. \<open>ModuleObject\<close> is a child buffer with the
  \<^verbatim>\<open>filename\<close> of its \<^verbatim>\<open>ExternalVars\<close>. The state of a run is the list
  \<^verbatim>\<open>moduleResult\<close> and the metadata added so far: both survive an exception.
\<close>

record scanObject =
  buffer :: string
  objectHash :: string
  moduleMetadata :: "(string \<times> string \<times> pyval) list"

record ModuleObject =
  mo_buffer :: string
  mo_filename :: string

record run_state =
  moduleResult :: "ModuleObject list"
  metadata :: "(string \<times> string \<times> pyval) list"

type_synonym 'a step = "run_state \<Rightarrow> (exn + 'a) \<times> run_state"

definition self_module_name :: string where
  "self_module_name = ''META_PE''"

definition addMetadata :: "string \<Rightarrow> string \<Rightarrow> pyval \<Rightarrow> unit step" where
  "addMetadata moduleName key v st =
     (Inr (), st\<lparr>metadata := metadata st @ [(moduleName, key, v)]\<rparr>)"

definition call :: "exn + 'a \<Rightarrow> 'a step" where
  \<comment> \<open>a call or attribute read that returns or raises, and leaves the state alone\<close>
  "call r st = (r, st)"

definition andThen :: "'a step \<Rightarrow> ('a \<Rightarrow> 'b step) \<Rightarrow> 'b step" where
  "andThen m f st = (case m st of (Inl e, st') \<Rightarrow> (Inl e, st') | (Inr a, st') \<Rightarrow> f a st')"

fun seq :: "unit step list \<Rightarrow> unit step" where
  "seq [] st = (Inr (), st)"
| "seq (f # fs) st = (case f st of (Inl e, st') \<Rightarrow> (Inl e, st') | (Inr u, st') \<Rightarrow> seq fs st')"

definition cancellation :: "exn \<Rightarrow> bool" where
  "cancellation e \<longleftrightarrow>
     e = QuitScanException \<or> e = GlobalScanTimeoutError \<or> e = GlobalModuleTimeoutError"

definition try_reraise :: "unit step \<Rightarrow> unit step" where
  \<comment> \<open>\<^verbatim>\<open>try: ... except (QuitScanException, GlobalScanTimeoutError, GlobalModuleTimeoutError): raise\<close>
      followed by \<^verbatim>\<open>except: logging.debug(...)\<close>\<close>
  "try_reraise m st =
     (case m st of
        (Inl e, st') \<Rightarrow> if cancellation e then (Inl e, st') else (Inr (), st')
      | (Inr u, st') \<Rightarrow> (Inr (), st'))"

definition try_except :: "unit step \<Rightarrow> unit step" where
  \<comment> \<open>\<^verbatim>\<open>try: ... except: logging.debug(...)\<close>\<close>
  "try_except m st =
     (case m st of
        (Inl e, st') \<Rightarrow> (Inr (), st')
      | (Inr u, st') \<Rightarrow> (Inr (), st'))"

section \<open>The method \_run of META\_PE\<close>

subsection \<open>Sections\<close>

definition strip_nul :: "string \<Rightarrow> string" where
  \<comment> \<open>\<^verbatim>\<open>s.strip('\0')\<close>\<close>
  "strip_nul s =
     rev (dropWhile (\<lambda>c. c = CHR 0x00) (rev (dropWhile (\<lambda>c. c = CHR 0x00) s)))"

definition secName :: "pe_section \<Rightarrow> string" where
  "secName section = strip_nul (get_default (sec_Name section) [])"

definition secInfo :: "pe_section \<Rightarrow> int \<Rightarrow> pydict" where
  "secInfo section virtAddress =
     [(''Virtual Address'', PyStr (''0x'' @ fmt_08X virtAddress)),
      (''Virtual Size'', opt_int (sec_Misc_VirtualSize section)),
      (''Raw Size'', opt_int (sec_SizeOfRawData section)),
      (''MD5'', PyStr (get_default (sec_MD5 section) [])),
      (''SHA1'', PyStr (get_default (sec_SHA1 section) [])),
      (''SHA256'', PyStr (get_default (sec_SHA256 section) [])),
      (''Entropy'', (case sec_Entropy section of None \<Rightarrow> PyStr [] | Some x \<Rightarrow> PyFloat x)),
      (''Section Characteristics'', PyList (map PyStr (get_default (sec_Flags section) []))),
      (''Structure'', PyStr (get_default (sec_Structure section) []))]"

fun sections_loop :: "PE \<Rightarrow> string \<Rightarrow> pe_section list \<Rightarrow> pydict \<Rightarrow> pydict step" where
  "sections_loop pe hash [] sections st = (Inr sections, st)"
| "sections_loop pe hash (section # rest) sections st =
     (case get_data pe (sec_PointerToRawData section) (sec_SizeOfRawData section) of
        Inl e \<Rightarrow> (Inl e, st)
      | Inr secData \<Rightarrow>
          (case sec_VirtualAddress section of
             None \<Rightarrow> (Inl TypeError, st)
           | Some virtAddress \<Rightarrow>
               sections_loop pe hash rest
                 (AList.update (secName section) (PyDict (secInfo section virtAddress)) sections)
                 (if get_default (sec_MD5 section) [] \<noteq> hash
                  then st\<lparr>moduleResult := moduleResult st @
                         [\<lparr>mo_buffer = secData, mo_filename = secName section\<rparr>]\<rparr>
                  else st)))"

definition field_Sections :: "PE \<Rightarrow> scanObject \<Rightarrow> dump \<Rightarrow> unit step" where
  "field_Sections pe scanObj dd =
     andThen (sections_loop pe (objectHash scanObj) (get_default (PE_Sections dd) []) [])
       (\<lambda>sections.
          addMetadata self_module_name ''Sections''
            (PyDict (AList.update ''Total'' (PyInt (NumberOfSections pe)) sections)))"

subsection \<open>Exports and imphash\<close>

definition field_Exports :: "PE \<Rightarrow> unit step" where
  "field_Exports pe =
     try_reraise
       (andThen (call (DIRECTORY_ENTRY_EXPORT pe))
          (\<lambda>symbols. addMetadata self_module_name ''Exports'' (PyList (map opt_str symbols))))"

definition field_Imphash :: "PE \<Rightarrow> unit step" where
  "field_Imphash pe =
     try_except
       (andThen (call (get_imphash pe))
          (\<lambda>h. addMetadata self_module_name ''Imphash'' (PyStr h)))"

subsection \<open>Imports\<close>

definition truthy_int :: "int option \<Rightarrow> bool" where
  "truthy_int v = (case v of None \<Rightarrow> False | Some i \<Rightarrow> i \<noteq> 0)"

definition truthy_str :: "string option \<Rightarrow> bool" where
  "truthy_str v = (case v of None \<Rightarrow> False | Some s \<Rightarrow> s \<noteq> [])"

definition setdefault :: "string \<Rightarrow> 'v \<Rightarrow> (string \<times> 'v) list \<Rightarrow> (string \<times> 'v) list" where
  "setdefault k d al = (case map_of al k of None \<Rightarrow> AList.update k d al | Some v \<Rightarrow> al)"

definition append_to :: "string \<Rightarrow> 'v \<Rightarrow> (string \<times> 'v list) list \<Rightarrow> (string \<times> 'v list) list" where
  \<comment> \<open>\<^verbatim>\<open>d[k].append(x)\<close>\<close>
  "append_to k x al = AList.map_entry k (\<lambda>l. l @ [x]) al"

definition imp_body :: "imp \<Rightarrow> (string \<times> pyval list) list \<Rightarrow> (string \<times> pyval list) list" where
  "imp_body i imports =
     (if truthy_str (imp_DLL i) then
        (let dll = the (imp_DLL i);
             imports1 = setdefault dll [] imports;
             imports2 = (if truthy_int (imp_Ordinal i)
                         then append_to dll (PyInt (the (imp_Ordinal i))) imports1 else imports1);
             imports3 = (if truthy_str (imp_Name i)
                         then append_to dll (PyStr (the (imp_Name i))) imports2 else imports2)
         in imports3)
      else imports)"

definition imports_loop :: "imp list list \<Rightarrow> (string \<times> pyval list) list" where
  "imports_loop imported_symbols =
     fold (\<lambda>imp_symbol imports. fold imp_body imp_symbol imports) imported_symbols []"

definition field_Imports :: "dump \<Rightarrow> unit step" where
  "field_Imports dd =
     (case Imported_symbols dd of
        None \<Rightarrow> call (Inl KeyError)
      | Some imported_symbols \<Rightarrow>
          addMetadata self_module_name ''Imports''
            (PyDict (map (\<lambda>(dll, l). (dll, PyList l)) (imports_loop imported_symbols))))"

subsection \<open>Header fields\<close>

definition field_ImageCharacteristics :: "dump \<Rightarrow> unit step" where
  "field_ImageCharacteristics dd =
     addMetadata self_module_name ''Image Characteristics''
       (PyList (map PyStr (get_default (dump_Flags dd) [])))"

definition field_Date :: "library \<Rightarrow> PE \<Rightarrow> unit step" where
  "field_Date lib pe =
     andThen (call (fromtimestamp_isoformat lib (TimeDateStamp pe)))
       (\<lambda>isoDate.
          seq [addMetadata self_module_name ''Date'' (PyStr isoDate),
               addMetadata self_module_name ''Timestamp'' (PyInt (TimeDateStamp pe))])"

definition field_MachineType :: "library \<Rightarrow> PE \<Rightarrow> unit step" where
  "field_MachineType lib pe =
     addMetadata self_module_name ''Machine Type''
       (PyDict [(''Id'', PyInt (Machine pe)),
                (''Type'', opt_str (MACHINE_TYPE lib (Machine pe)))])"

definition IMAGE_MAGIC_LOOKUP :: "(pyval \<times> string) list" where
  "IMAGE_MAGIC_LOOKUP =
     [(PyInt 0x10b, ''32_BIT''), (PyInt 0x20b, ''64_BIT''), (PyInt 0x107, ''ROM_IMAGE'')]"

definition imageMagic :: pyval where
  \<comment> \<open>the empty string assigned at the head of \<^verbatim>\<open>_run\<close>, the only assignment to the variable\<close>
  "imageMagic = PyStr []"

definition field_ImageMagic :: "unit step" where
  "field_ImageMagic =
     addMetadata self_module_name ''Image Magic''
       (PyStr (get_default (map_of IMAGE_MAGIC_LOOKUP imageMagic) ''Unknown''))"

definition field_DLLCharacteristics :: "dump \<Rightarrow> unit step" where
  "field_DLLCharacteristics dd =
     addMetadata self_module_name ''DLL Characteristics''
       (PyList (map PyStr (get_default (DllCharacteristics dd) [])))"

definition field_Subsystem :: "library \<Rightarrow> PE \<Rightarrow> unit step" where
  "field_Subsystem lib pe =
     addMetadata self_module_name ''Subsystem'' (opt_str (SUBSYSTEM_TYPE lib (Subsystem pe)))"

subsection \<open>Resources\<close>

definition resource_leaf :: "library \<Rightarrow> PE \<Rightarrow> string \<Rightarrow> res_lang_entry \<Rightarrow> unit step" where
  "resource_leaf lib pe res_type e_entry =
     andThen (call (e_data e_entry))
       (\<lambda>d. andThen (call (get_data pe (Some (OffsetToData d)) (Some (res_Size d))))
          (\<lambda>raw_data.
             addMetadata self_module_name ''Resources''
               (PyDict
                  [(''Type'', PyStr res_type),
                   (''Id'', opt_int (e_id e_entry)),
                   (''Name'', PyStr (struct_name d)),
                   (''Offset'', PyInt (OffsetToData d)),
                   (''Size'', PyInt (res_Size d)),
                   (''SHA256'', PyStr (sha256_hexdigest lib raw_data)),
                   (''SHA1'', PyStr (sha1_hexdigest lib raw_data)),
                   (''MD5'', PyStr (md5_hexdigest lib raw_data)),
                   (''Language'', PyStr (get_default (LANG lib (res_lang d)) ''Unknown'')),
                   (''Sub Language'',
                      PyStr (get_sublang_name_for_lang lib (res_lang d) (res_sublang d)))])))"

definition resource_type_name :: "library \<Rightarrow> int option \<Rightarrow> string" where
  \<comment> \<open>\<^verbatim>\<open>pefile.RESOURCE_TYPE.get(resource.id, 'Unknown')\<close>; the id of a named entry is \<^verbatim>\<open>None\<close>\<close>
  "resource_type_name lib rid =
     (case rid of None \<Rightarrow> ''Unknown'' | Some i \<Rightarrow> get_default (RESOURCE_TYPE lib i) ''Unknown'')"

definition resource_entry :: "library \<Rightarrow> PE \<Rightarrow> string \<Rightarrow> res_name_entry \<Rightarrow> unit step" where
  "resource_entry lib pe res_type entry =
     andThen (call (entry_directory entry))
       (\<lambda>e_entries. seq (map (resource_leaf lib pe res_type) e_entries))"

definition resource_type :: "library \<Rightarrow> PE \<Rightarrow> res_type_entry \<Rightarrow> unit step" where
  "resource_type lib pe resource =
     andThen (call (resource_directory resource))
       (\<lambda>entries.
          seq (map (resource_entry lib pe (resource_type_name lib (resource_id resource))) entries))"

definition field_Resources :: "library \<Rightarrow> PE \<Rightarrow> unit step" where
  "field_Resources lib pe =
     try_reraise
       (andThen (call (DIRECTORY_ENTRY_RESOURCE pe))
          (\<lambda>resources. seq (map (resource_type lib pe) resources)))"

subsection \<open>Sizes, addresses, RSDS and Rich header\<close>

definition field_StackHeap :: "PE \<Rightarrow> unit step" where
  "field_StackHeap pe =
     seq [addMetadata self_module_name ''Stack Reserve Size'' (PyInt (SizeOfStackReserve pe)),
          addMetadata self_module_name ''Stack Commit Size'' (PyInt (SizeOfStackCommit pe)),
          addMetadata self_module_name ''Heap Reserve Size'' (PyInt (SizeOfHeapReserve pe)),
          addMetadata self_module_name ''Heap Commit Size'' (PyInt (SizeOfHeapCommit pe))]"

definition field_EntryPoint :: "PE \<Rightarrow> unit step" where
  "field_EntryPoint pe =
     addMetadata self_module_name ''EntryPoint'' (PyStr (py_hex (AddressOfEntryPoint pe)))"

definition field_ImageBase :: "PE \<Rightarrow> unit step" where
  "field_ImageBase pe =
     addMetadata self_module_name ''ImageBase'' (PyStr (py_hex (ImageBase pe)))"

definition field_RSDS :: "scanObject \<Rightarrow> unit step" where
  "field_RSDS scanObj = addMetadata self_module_name ''RSDS'' (PyDict (parseRSDS (buffer scanObj)))"

definition field_RichHeader :: "PE \<Rightarrow> unit step" where
  "field_RichHeader pe =
     andThen (call (parseRich (RICH_HEADER pe)))
       (\<lambda>r. addMetadata self_module_name ''Rich Header'' (PyDict r))"

subsection \<open>The body of the try statement and the handler\<close>

definition fields :: "library \<Rightarrow> PE \<Rightarrow> scanObject \<Rightarrow> dump \<Rightarrow> unit step list" where
  "fields lib pe scanObj dd =
     [field_Sections pe scanObj dd,
      field_Exports pe,
      field_Imphash pe,
      field_Imports dd,
      field_ImageCharacteristics dd,
      field_Date lib pe,
      field_MachineType lib pe,
      field_ImageMagic,
      field_DLLCharacteristics dd,
      field_Subsystem lib pe,
      field_Resources lib pe,
      field_StackHeap pe,
      field_EntryPoint pe,
      field_ImageBase pe,
      field_RSDS scanObj,
      field_RichHeader pe]"

definition try_body :: "library \<Rightarrow> (string \<Rightarrow> exn + PE) \<Rightarrow> scanObject \<Rightarrow> unit step" where
  "try_body lib pefile_PE scanObj =
     andThen (call (pefile_PE (buffer scanObj)))
       (\<lambda>pe. andThen (call (dump_dict pe))
          (\<lambda>dd. seq (fields lib pe scanObj dd)))"

definition META_PE_run ::
  "library \<Rightarrow> (string \<Rightarrow> exn + PE) \<Rightarrow> scanObject \<Rightarrow> (exn + ModuleObject list) \<times> scanObject" where
  "META_PE_run lib pefile_PE scanObj =
     (case try_body lib pefile_PE scanObj
             \<lparr>moduleResult = [], metadata = moduleMetadata scanObj\<rparr> of
        (Inl e, st) \<Rightarrow>
          if e = PEFormatError
          then (Inr (moduleResult st), scanObj\<lparr>moduleMetadata := metadata st\<rparr>)
          else (Inl e, scanObj\<lparr>moduleMetadata := metadata st\<rparr>)
      | (Inr u, st) \<Rightarrow> (Inr (moduleResult st), scanObj\<lparr>moduleMetadata := metadata st\<rparr>))"

section \<open>Reading the result of a run\<close>

definition keys_of :: "scanObject \<Rightarrow> string list" where
  \<comment> \<open>the keys of the metadata added to the scan object, in the order of the calls\<close>
  "keys_of scanObj = map (\<lambda>(m, k, v). k) (moduleMetadata scanObj)"

definition metadata_of :: "string \<Rightarrow> scanObject \<Rightarrow> pyval list" where
  \<comment> \<open>the values added under a key, in the order of the calls\<close>
  "metadata_of key scanObj =
     map (\<lambda>(m, k, v). v) (filter (\<lambda>(m, k, v). k = key) (moduleMetadata scanObj))"

definition imp_entries :: "imp \<Rightarrow> pyval list" where
  \<comment> \<open>what the two \<^verbatim>\<open>if\<close> statements on \<^verbatim>\<open>Ordinal\<close> and \<^verbatim>\<open>Name\<close> append for one descriptor\<close>
  "imp_entries i =
     (if truthy_int (imp_Ordinal i) then [PyInt (the (imp_Ordinal i))] else []) @
     (if truthy_str (imp_Name i) then [PyStr (the (imp_Name i))] else [])"

definition descriptors_of :: "string \<Rightarrow> imp list list \<Rightarrow> imp list" where
  \<comment> \<open>the descriptors that carry the DLL name, in the order the two loops visit them\<close>
  "descriptors_of dll imported_symbols = filter (\<lambda>i. imp_DLL i = Some dll) (concat imported_symbols)"

section \<open>Notions used to state the properties of a run\<close>

definition section_child :: "PE \<Rightarrow> pe_section \<Rightarrow> ModuleObject" where
  \<comment> \<open>the child buffer the loop builds for a section: its data under its name\<close>
  "section_child pe section =
     \<lparr>mo_buffer = (case get_data pe (sec_PointerToRawData section) (sec_SizeOfRawData section) of
                     Inl e \<Rightarrow> [] | Inr secData \<Rightarrow> secData),
      mo_filename = secName section\<rparr>"

definition section_read :: "PE \<Rightarrow> pe_section \<Rightarrow> bool" where
  \<comment> \<open>the loop body raises nothing on the section: its data is fetched and its virtual
      address is there to be formatted\<close>
  "section_read pe section \<longleftrightarrow>
     (case get_data pe (sec_PointerToRawData section) (sec_SizeOfRawData section) of
        Inl e \<Rightarrow> False | Inr secData \<Rightarrow> True) \<and>
     sec_VirtualAddress section \<noteq> None"

definition sections_dict :: "pe_section list \<Rightarrow> pydict \<Rightarrow> pydict" where
  \<comment> \<open>the assignments \<^verbatim>\<open>sections[secName] = secInfo\<close> of the loop, one for every section\<close>
  "sections_dict secs sections =
     fold (\<lambda>section d.
             AList.update (secName section)
               (PyDict (secInfo section (the (sec_VirtualAddress section)))) d)
       secs sections"

definition sections_metadata :: "PE \<Rightarrow> pe_section list \<Rightarrow> pydict" where
  \<comment> \<open>the dictionary of all the loop's assignments, then \<^verbatim>\<open>sections['Total']\<close>\<close>
  "sections_metadata pe secs =
     AList.update ''Total'' (PyInt (NumberOfSections pe)) (sections_dict secs [])"

definition guarded_keys :: "string set" where
  "guarded_keys = {''Exports'', ''Imphash'', ''Resources''}"

definition other_fields :: "scanObject \<Rightarrow> (string \<times> string \<times> pyval) list" where
  \<comment> \<open>the metadata added under every key but those of the three guarded fields\<close>
  "other_fields scanObj = filter (\<lambda>(m, k, v). k \<notin> guarded_keys) (moduleMetadata scanObj)"

definition raises_cancellation :: "unit step \<Rightarrow> bool" where
  \<comment> \<open>a step that ends with one of the three cancellation exceptions\<close>
  "raises_cancellation f \<longleftrightarrow>
     (case fst (f \<lparr>moduleResult = [], metadata = []\<rparr>) of
        Inl e \<Rightarrow> cancellation e | Inr u \<Rightarrow> False)"

definition writes :: "string set \<Rightarrow> 'a step \<Rightarrow> bool" where
  \<comment> \<open>a step that reads nothing of the state and only adds metadata under keys of \<open>K\<close>\<close>
  "writes K f \<longleftrightarrow>
     (\<exists>r es. (\<forall>(m, k, v) \<in> set es. k \<in> K) \<and>
             (\<forall>st. f st = (r, st\<lparr>metadata := metadata st @ es\<rparr>)))"

definition sim :: "run_state \<Rightarrow> run_state \<Rightarrow> bool" where
  \<comment> \<open>two states that agree but for the metadata of the guarded fields\<close>
  "sim st st' \<longleftrightarrow>
     moduleResult st = moduleResult st' \<and>
     filter (\<lambda>(m, k, v). k \<notin> guarded_keys) (metadata st) =
     filter (\<lambda>(m, k, v). k \<notin> guarded_keys) (metadata st')"

definition rel_step :: "'a step \<Rightarrow> 'a step \<Rightarrow> bool" where
  "rel_step f g \<longleftrightarrow>
     (\<forall>st st'. sim st st' \<longrightarrow> fst (f st) = fst (g st') \<and> sim (snd (f st)) (snd (g st')))"

section \<open>A small PE used to evaluate the model\<close>

definition demo_library :: library where
  "demo_library =
     \<lparr>MACHINE_TYPE = (\<lambda>m. if m = 0x14c then Some ''IMAGE_FILE_MACHINE_I386'' else None),
      SUBSYSTEM_TYPE = (\<lambda>s. if s = 2 then Some ''IMAGE_SUBSYSTEM_WINDOWS_GUI'' else None),
      RESOURCE_TYPE = (\<lambda>t. if t = 3 then Some ''RT_ICON'' else None),
      LANG = (\<lambda>l. if l = 9 then Some ''LANG_ENGLISH'' else None),
      get_sublang_name_for_lang = (\<lambda>l s. ''SUBLANG_ENGLISH_US''),
      fromtimestamp_isoformat = (\<lambda>t. if 0 \<le> t then Inr ''2015-06-01T12:00:00'' else Inl ValueError),
      sha256_hexdigest = (\<lambda>b. ''s256''),
      sha1_hexdigest = (\<lambda>b. ''s1''),
      md5_hexdigest = (\<lambda>b. ''m5'')\<rparr>"

definition demo_text :: pe_section where
  "demo_text =
     \<lparr>sec_Name = Some (''.text'' @ [CHR 0x00, CHR 0x00, CHR 0x00]),
      sec_PointerToRawData = Some 512,
      sec_VirtualAddress = Some 4096,
      sec_Misc_VirtualSize = Some 10,
      sec_SizeOfRawData = Some 512,
      sec_MD5 = Some ''md5-of-text'',
      sec_SHA1 = Some ''sha1-of-text'',
      sec_SHA256 = Some ''sha256-of-text'',
      sec_Entropy = Some 6,
      sec_Flags = Some [''IMAGE_SCN_CNT_CODE''],
      sec_Structure = Some ''IMAGE_SECTION_HEADER''\<rparr>"

definition demo_data :: pe_section where
  "demo_data =
     \<lparr>sec_Name = Some (''.data'' @ [CHR 0x00, CHR 0x00, CHR 0x00]),
      sec_PointerToRawData = Some 1024,
      sec_VirtualAddress = Some 8192,
      sec_Misc_VirtualSize = Some 4,
      sec_SizeOfRawData = Some 512,
      sec_MD5 = Some ''md5-of-file'',
      sec_SHA1 = Some ''sha1-of-data'',
      sec_SHA256 = Some ''sha256-of-data'',
      sec_Entropy = None,
      sec_Flags = None,
      sec_Structure = None\<rparr>"

definition demo_imports :: "imp list list" where
  "demo_imports =
     [[\<lparr>imp_DLL = None, imp_Ordinal = None, imp_Name = None\<rparr>,
       \<lparr>imp_DLL = Some ''KERNEL32.DLL'', imp_Ordinal = None, imp_Name = Some ''CreateFileA''\<rparr>,
       \<lparr>imp_DLL = Some ''KERNEL32.DLL'', imp_Ordinal = Some 17, imp_Name = None\<rparr>],
      [\<lparr>imp_DLL = None, imp_Ordinal = None, imp_Name = None\<rparr>,
       \<lparr>imp_DLL = Some ''WS2_32.DLL'', imp_Ordinal = Some 0, imp_Name = None\<rparr>,
       \<lparr>imp_DLL = Some ''KERNEL32.DLL'', imp_Ordinal = None, imp_Name = Some ''ExitProcess''\<rparr>]]"

definition demo_dump :: dump where
  "demo_dump =
     \<lparr>PE_Sections = Some [demo_text, demo_data],
      Imported_symbols = Some demo_imports,
      dump_Flags = Some [''IMAGE_FILE_EXECUTABLE_IMAGE''],
      DllCharacteristics = None\<rparr>"

definition demo_resources :: "res_type_entry list" where
  "demo_resources =
     [\<lparr>resource_id = Some 3,
       resource_directory =
         Inr [\<lparr>entry_directory =
                Inr [\<lparr>e_id = Some 1033,
                      e_data = Inr \<lparr>res_lang = 9, res_sublang = 1, OffsetToData = 12288,
                                    res_Size = 16, struct_name = ''IMAGE_RESOURCE_DATA_ENTRY''\<rparr>\<rparr>]\<rparr>]\<rparr>,
      \<lparr>resource_id = None, resource_directory = Inl AttributeError\<rparr>]"

definition demo_pe :: PE where
  "demo_pe =
     \<lparr>dump_dict = Inr demo_dump,
      get_data = (\<lambda>p s. if p = Some 512 then Inr ''code'' else Inr ''data''),
      NumberOfSections = 2,
      TimeDateStamp = 1433160000,
      Machine = 0x14c,
      Magic = 0x10b,
      Subsystem = 2,
      SizeOfStackReserve = 1048576,
      SizeOfStackCommit = 4096,
      SizeOfHeapReserve = 1048576,
      SizeOfHeapCommit = 4096,
      AddressOfEntryPoint = 4096,
      ImageBase = 4194304,
      DIRECTORY_ENTRY_EXPORT = Inr [Some ''DllMain''],
      get_imphash = Inr ''imphash-of-file'',
      DIRECTORY_ENTRY_RESOURCE = Inr demo_resources,
      RICH_HEADER = Some \<lparr>rich_values = [65538, 3], rich_checksum = 7\<rparr>\<rparr>"

definition demo_scanObject :: scanObject where
  "demo_scanObject =
     \<lparr>buffer = ''MZ-not-a-real-image'', objectHash = ''md5-of-file'', moduleMetadata = []\<rparr>"

section \<open>Properties of parseRich\<close>

lemma word_fields:
  "drop_bit 16 (v::int) = v div 65536"
  "v AND 0xffff = v mod 65536"
proof -
  show "drop_bit 16 v = v div 65536"
    by (simp add: drop_bit_eq_div)
  have "v AND mask 16 = v mod 2 ^ 16"
    by (simp add: take_bit_eq_mod flip: take_bit_eq_mask)
  then show "v AND 0xffff = v mod 65536"
    by (simp add: mask_eq_exp_minus_1)
qed

lemma rich_loop_even:
  "length vs = 2 * n \<Longrightarrow>
   \<exists>data. rich_loop vs = Inr data \<and> length data = n \<and>
     (\<forall>i<n. data ! i = PyDict [(''Id'', PyInt (vs ! (2 * i) div 65536)),
                              (''Version'', PyInt (vs ! (2 * i) mod 65536)),
                              (''Count'', PyInt (vs ! (2 * i + 1)))])"
proof (induction vs arbitrary: n rule: rich_loop.induct)
  case 1
  then show ?case by simp
next
  case (2 v)
  then have False by auto
  then show ?case ..
next
  case (3 v c rest)
  let ?d = "PyDict [(''Id'', PyInt (v div 65536)), (''Version'', PyInt (v mod 65536)),
                    (''Count'', PyInt c)]"
  from "3.prems" obtain m where n: "n = Suc m" and len: "length rest = 2 * m"
    by (cases n) auto
  from "3.IH" [OF len] obtain data where d: "rich_loop rest = Inr data" "length data = m"
    and nth: "\<forall>i<m. data ! i = PyDict [(''Id'', PyInt (rest ! (2 * i) div 65536)),
                              (''Version'', PyInt (rest ! (2 * i) mod 65536)),
                              (''Count'', PyInt (rest ! (2 * i + 1)))]"
    by blast
  show ?case
  proof (intro exI conjI allI impI)
    show "rich_loop (v # c # rest) = Inr (?d # data)"
      using d by (simp add: word_fields)
    show "length (?d # data) = n"
      using d n by simp
  next
    fix i assume "i < n"
    then show "(?d # data) ! i =
        PyDict [(''Id'', PyInt ((v # c # rest) ! (2 * i) div 65536)),
                (''Version'', PyInt ((v # c # rest) ! (2 * i) mod 65536)),
                (''Count'', PyInt ((v # c # rest) ! (2 * i + 1)))]"
      using nth n by (cases i) auto
  qed
qed

text \<open>
  Claim C4, as the code has it. \<^verbatim>\<open>parseRich\<close> walks \<^verbatim>\<open>pe.RICH_HEADER.values\<close> two words at
  a time from index 0 and skips nothing: when the list holds \<open>n\<close> pairs the result carries
  exactly \<open>n\<close> records, the \<open>i\<close>-th with \<open>Id\<close> the high 16 bits (the word divided by
  \<open>2^16\<close>) and \<open>Version\<close> the low 16 bits of the first word of pair \<open>i\<close> and \<open>Count\<close> its
  second word, together with the checksum as pefile gave it. Without a Rich header the
  result is the empty dictionary.
\<close>

theorem parseRich_pairs:
  "length vs = 2 * n \<Longrightarrow>
   parseRich None = Inr [] \<and>
   (\<exists>data. parseRich (Some \<lparr>rich_values = vs, rich_checksum = c\<rparr>) =
              Inr [(''Rich Header Values'', PyList data), (''Checksum'', PyInt c)] \<and>
           length data = n \<and>
           (\<forall>i<n. data ! i = PyDict [(''Id'', PyInt (vs ! (2 * i) div 65536)),
                                    (''Version'', PyInt (vs ! (2 * i) mod 65536)),
                                    (''Count'', PyInt (vs ! (2 * i + 1)))]))"
proof -
  assume "length vs = 2 * n"
  from rich_loop_even [OF this] obtain data where
    "rich_loop vs = Inr data" "length data = n"
    "\<forall>i<n. data ! i = PyDict [(''Id'', PyInt (vs ! (2 * i) div 65536)),
                              (''Version'', PyInt (vs ! (2 * i) mod 65536)),
                              (''Count'', PyInt (vs ! (2 * i + 1)))]"
    by blast
  then show ?thesis
    by (auto simp: parseRich_def)
qed

theorem parseRich_pairs_witness:
  "parseRich (Some \<lparr>rich_values = [65538, 3, 131077, 9], rich_checksum = 7\<rparr>) =
     Inr [(''Rich Header Values'',
           PyList [PyDict [(''Id'', PyInt 1), (''Version'', PyInt 2), (''Count'', PyInt 3)],
                   PyDict [(''Id'', PyInt 2), (''Version'', PyInt 5), (''Count'', PyInt 9)]]),
          (''Checksum'', PyInt 7)]"
proof -
  have len: "length [65538, 3, 131077, 9 :: int] = 2 * 2"
    by simp
  from parseRich_pairs [OF len, of 7] obtain data where
    p: "parseRich (Some \<lparr>rich_values = [65538, 3, 131077, 9], rich_checksum = 7\<rparr>) =
          Inr [(''Rich Header Values'', PyList data), (''Checksum'', PyInt 7)]"
    and l: "length data = 2"
    and nth: "\<forall>i<2. data ! i =
          PyDict [(''Id'', PyInt ([65538, 3, 131077, 9] ! (2 * i) div 65536)),
                  (''Version'', PyInt ([65538, 3, 131077, 9] ! (2 * i) mod 65536)),
                  (''Count'', PyInt ([65538, 3, 131077, 9] ! (2 * i + 1)))]"
    by blast
  from nth have "data ! 0 = PyDict [(''Id'', PyInt 1), (''Version'', PyInt 2), (''Count'', PyInt 3)]"
    by simp
  moreover from nth have "data ! 1 = PyDict [(''Id'', PyInt 2), (''Version'', PyInt 5), (''Count'', PyInt 9)]"
    by simp
  moreover from l obtain a b where "data = [a, b]"
    by (cases data; cases "tl data") auto
  ultimately show ?thesis
    using p by simp
qed

theorem parseRich_first_pair_counterexample:
  "parseRich (Some \<lparr>rich_values = [65538, 3], rich_checksum = 7\<rparr>) =
     Inr [(''Rich Header Values'',
           PyList [PyDict [(''Id'', PyInt 1), (''Version'', PyInt 2), (''Count'', PyInt 3)]]),
          (''Checksum'', PyInt 7)] \<and>
   length [PyDict [(''Id'', PyInt 1), (''Version'', PyInt 2), (''Count'', PyInt 3)]] \<noteq>
     length [65538, 3 :: int] div 2 - 1"
  by (simp add: parseRich_def word_fields)

section \<open>Properties of parseRSDS\<close>

text \<open>
  Claim C3, evaluated on the code. The docstring of \<^verbatim>\<open>parseRSDS\<close> documents the record as
  the signature, a 16-byte GUID, a dword age and the path. A record whose age is 10 has the
  byte \<open>0x0A\<close> at offset 20, which \<^verbatim>\<open>.\<close> does not match: the buffer holds \<^verbatim>\<open>RSDS\<close>, 24
  bytes and a path ending in \<^verbatim>\<open>.pdb\<close>, and the result is empty. The same record with age
  11 is decoded field by field. Two records one after the other are taken as a single match
  by the greedy repetition: the GUID and age decoded are those of the first record, and the
  path runs to the end of the second.
\<close>

theorem parseRSDS_newline_byte:
  "parseRSDS (''RSDS0123456789abcdef'' @ [CHR 0x0A, CHR 0x00, CHR 0x00, CHR 0x00] @ ''abcd.pdb'') = [] \<and>
   parseRSDS (''RSDS0123456789abcdef'' @ [CHR 0x0B, CHR 0x00, CHR 0x00, CHR 0x00] @ ''abcd.pdb'') =
     [(''guid'', PyStr ''30313233-3435-3637-3839616263646566''),
      (''age'', PyInt 11),
      (''pdb'', PyStr ''abcd.pdb'')] \<and>
   parseRSDS (''RSDS0123456789abcdef'' @ [CHR 0x0B, CHR 0x00, CHR 0x00, CHR 0x00] @ ''abcd.pdb'' @
              ''RSDSABCDEFGHIJKLMNOP'' @ [CHR 0x0C, CHR 0x00, CHR 0x00, CHR 0x00] @ ''wxyz.pdb'') =
     [(''guid'', PyStr ''30313233-3435-3637-3839616263646566''),
      (''age'', PyInt 11),
      (''pdb'', PyStr (''abcd.pdbRSDSABCDEFGHIJKLMNOP'' @ [CHR 0x0C, CHR 0x00, CHR 0x00, CHR 0x00] @
                      ''wxyz.pdb''))]"
  by code_simp

section \<open>Evaluating a run\<close>

lemma andThen_call [simp]:
  "andThen (call (Inl e)) f st = (Inl e, st)"
  "andThen (call (Inr a)) f st = f a st"
  by (simp_all add: andThen_def call_def)

lemmas run_defs = META_PE_run_def try_body_def fields_def andThen_def call_def addMetadata_def
  self_module_name_def try_reraise_def try_except_def cancellation_def
  field_Sections_def field_Exports_def field_Imphash_def field_Imports_def
  field_ImageCharacteristics_def field_Date_def field_MachineType_def field_ImageMagic_def
  field_DLLCharacteristics_def field_Subsystem_def field_Resources_def field_StackHeap_def
  field_EntryPoint_def field_ImageBase_def field_RSDS_def field_RichHeader_def
  resource_type_def resource_entry_def resource_leaf_def resource_type_name_def
  imports_loop_def imp_body_def setdefault_def append_to_def truthy_int_def truthy_str_def
  secName_def secInfo_def strip_nul_def get_default_def opt_int_def opt_str_def
  IMAGE_MAGIC_LOOKUP_def imageMagic_def parseRich_def word_fields
  keys_of_def metadata_of_def

lemmas demo_defs = demo_library_def demo_text_def demo_data_def demo_imports_def demo_dump_def
  demo_resources_def demo_pe_def demo_scanObject_def

section \<open>Format errors\<close>

text \<open>
  Claim C1. When \<^verbatim>\<open>pefile.PE(data=scanObject.buffer)\<close> raises \<^verbatim>\<open>PEFormatError\<close> (the DOS or
  PE signature is not valid), \<^verbatim>\<open>_run\<close> returns the empty list of child buffers, the scan
  object is unchanged (no metadata is added), and no exception leaves \<^verbatim>\<open>_run\<close>.
\<close>

theorem format_error_abandons:
  "pefile_PE (buffer scanObj) = Inl PEFormatError \<Longrightarrow>
   META_PE_run lib pefile_PE scanObj = (Inr [], scanObj)"
  by (simp add: META_PE_run_def try_body_def)

theorem format_error_abandons_witness:
  "META_PE_run demo_library (\<lambda>b. Inl PEFormatError) demo_scanObject = (Inr [], demo_scanObject) \<and>
   keys_of (snd (META_PE_run demo_library (\<lambda>b. Inl PEFormatError) demo_scanObject)) = []"
  using format_error_abandons [of "\<lambda>b. Inl PEFormatError" demo_scanObject demo_library]
  by (simp add: keys_of_def demo_scanObject_def)

section \<open>Image magic\<close>

text \<open>
  Claim C5, evaluated on the code. The variable \<^verbatim>\<open>imageMagic\<close> is set to the empty string
  at the head of \<^verbatim>\<open>_run\<close> and never assigned from \<^verbatim>\<open>pe.OPTIONAL_HEADER.Magic\<close>, so the lookup
  in \<^verbatim>\<open>IMAGE_MAGIC_LOOKUP\<close> always misses: the value added under \<open>Image Magic\<close> is
  \<open>Unknown\<close> in every state, and in the run on a PE whose optional-header magic is \<open>0x10b\<close>.
\<close>

theorem image_magic_unknown:
  "field_ImageMagic st =
     (Inr (), st\<lparr>metadata := metadata st @ [(''META_PE'', ''Image Magic'', PyStr ''Unknown'')]\<rparr>) \<and>
   Magic demo_pe = 0x10b \<and>
   metadata_of ''Image Magic'' (snd (META_PE_run demo_library (\<lambda>b. Inr demo_pe) demo_scanObject)) =
     [PyStr ''Unknown'']"
proof (intro conjI)
  show "field_ImageMagic st =
     (Inr (), st\<lparr>metadata := metadata st @ [(''META_PE'', ''Image Magic'', PyStr ''Unknown'')]\<rparr>)"
    by (simp add: field_ImageMagic_def addMetadata_def self_module_name_def IMAGE_MAGIC_LOOKUP_def
        imageMagic_def get_default_def)
  show "Magic demo_pe = 0x10b"
    by (simp add: demo_pe_def)
  show "metadata_of ''Image Magic'' (snd (META_PE_run demo_library (\<lambda>b. Inr demo_pe) demo_scanObject)) =
     [PyStr ''Unknown'']"
    by (simp add: run_defs demo_defs)
qed

section \<open>Cancellation\<close>

text \<open>
  Claim C8, evaluated on the code. The \<^verbatim>\<open>try\<close> statement around \<^verbatim>\<open>pe.get_imphash()\<close> has a
  bare \<^verbatim>\<open>except\<close> and no clause that raises the cancellation exceptions again, unlike the
  statements around the exports and the resources. Whatever \<^verbatim>\<open>get_imphash\<close> raises, a
  cancellation included, the field returns normally; the same exception raised while the
  exports are read leaves the field. In the run where \<^verbatim>\<open>get_imphash\<close> raises
  \<^verbatim>\<open>GlobalScanTimeoutError\<close>, \<^verbatim>\<open>_run\<close> returns the child buffers and every later field is
  added.
\<close>

theorem imphash_swallows_cancellation:
  "field_Imphash (pe\<lparr>get_imphash := Inl e\<rparr>) st = (Inr (), st) \<and>
   field_Exports (pe\<lparr>DIRECTORY_ENTRY_EXPORT := Inl GlobalScanTimeoutError\<rparr>) st =
     (Inl GlobalScanTimeoutError, st) \<and>
   fst (META_PE_run demo_library
          (\<lambda>b. Inr (demo_pe\<lparr>get_imphash := Inl GlobalScanTimeoutError\<rparr>)) demo_scanObject) =
     Inr [\<lparr>mo_buffer = ''code'', mo_filename = ''.text''\<rparr>] \<and>
   keys_of (snd (META_PE_run demo_library
          (\<lambda>b. Inr (demo_pe\<lparr>get_imphash := Inl GlobalScanTimeoutError\<rparr>)) demo_scanObject)) =
     [''Sections'', ''Exports'', ''Imports'', ''Image Characteristics'', ''Date'', ''Timestamp'',
      ''Machine Type'', ''Image Magic'', ''DLL Characteristics'', ''Subsystem'', ''Resources'',
      ''Stack Reserve Size'', ''Stack Commit Size'', ''Heap Reserve Size'', ''Heap Commit Size'',
      ''EntryPoint'', ''ImageBase'', ''RSDS'', ''Rich Header'']"
proof (intro conjI)
  show "field_Imphash (pe\<lparr>get_imphash := Inl e\<rparr>) st = (Inr (), st)"
    by (simp add: field_Imphash_def try_except_def)
  show "field_Exports (pe\<lparr>DIRECTORY_ENTRY_EXPORT := Inl GlobalScanTimeoutError\<rparr>) st =
     (Inl GlobalScanTimeoutError, st)"
    by (simp add: field_Exports_def try_reraise_def cancellation_def)
  show "fst (META_PE_run demo_library
          (\<lambda>b. Inr (demo_pe\<lparr>get_imphash := Inl GlobalScanTimeoutError\<rparr>)) demo_scanObject) =
     Inr [\<lparr>mo_buffer = ''code'', mo_filename = ''.text''\<rparr>]"
    by (simp add: run_defs demo_defs)
  show "keys_of (snd (META_PE_run demo_library
          (\<lambda>b. Inr (demo_pe\<lparr>get_imphash := Inl GlobalScanTimeoutError\<rparr>)) demo_scanObject)) =
     [''Sections'', ''Exports'', ''Imports'', ''Image Characteristics'', ''Date'', ''Timestamp'',
      ''Machine Type'', ''Image Magic'', ''DLL Characteristics'', ''Subsystem'', ''Resources'',
      ''Stack Reserve Size'', ''Stack Commit Size'', ''Heap Reserve Size'', ''Heap Commit Size'',
      ''EntryPoint'', ''ImageBase'', ''RSDS'', ''Rich Header'']"
    by (simp add: run_defs demo_defs)
qed

section \<open>Imports\<close>

lemma map_of_imp_body:
  "map_of (imp_body i d) dll =
     (if truthy_str (imp_DLL i) \<and> imp_DLL i = Some dll
      then Some (get_default (map_of d dll) [] @ imp_entries i)
      else map_of d dll)"
  by (auto simp: imp_body_def imp_entries_def setdefault_def append_to_def get_default_def
      Let_def update_conv' map_of_map_entry truthy_str_def split: option.splits)

lemma map_of_fold_imp_body:
  "dll \<noteq> [] \<Longrightarrow>
   map_of (fold imp_body is d) dll =
     (if filter (\<lambda>i. imp_DLL i = Some dll) is = [] then map_of d dll
      else Some (get_default (map_of d dll) [] @
                 concat (map imp_entries (filter (\<lambda>i. imp_DLL i = Some dll) is))))"
proof (induction "is" arbitrary: d)
  case Nil
  then show ?case by simp
next
  case (Cons i "is")
  show ?case
    using Cons.prems
    by (simp add: Cons.IH [OF Cons.prems] map_of_imp_body truthy_str_def get_default_def)
qed

lemma fold_nested:
  "fold (\<lambda>xs s. fold f xs s) xss s = fold f (concat xss) s"
  by (induction xss arbitrary: s) simp_all

lemma imports_loop_concat:
  "imports_loop imported_symbols = fold imp_body (concat imported_symbols) []"
  by (simp add: imports_loop_def fold_nested)

text \<open>
  Claim C7, as the code has it. For a non-empty DLL name, the list stored under that name
  in \<^verbatim>\<open>imports\<close> is the concatenation, in the order the descriptors are visited, of what
  each descriptor carrying the name contributes (no list when no descriptor carries it).
  A descriptor with a non-zero ordinal and no name contributes exactly that ordinal; a
  descriptor with a non-empty name and no ordinal contributes exactly that name.
\<close>

theorem imports_order_and_entries:
  "dll \<noteq> [] \<Longrightarrow>
   map_of (imports_loop imported_symbols) dll =
     (if descriptors_of dll imported_symbols = [] then None
      else Some (concat (map imp_entries (descriptors_of dll imported_symbols)))) \<and>
   (imp_Ordinal i = Some n \<and> n \<noteq> 0 \<and> imp_Name i = None \<longrightarrow> imp_entries i = [PyInt n]) \<and>
   (imp_Name j = Some s \<and> s \<noteq> [] \<and> imp_Ordinal j = None \<longrightarrow> imp_entries j = [PyStr s])"
  by (simp add: imports_loop_concat map_of_fold_imp_body descriptors_of_def get_default_def
      imp_entries_def truthy_int_def truthy_str_def)

theorem imports_order_and_entries_witness:
  "map_of (imports_loop demo_imports) ''KERNEL32.DLL'' =
     Some [PyStr ''CreateFileA'', PyInt 17, PyStr ''ExitProcess''] \<and>
   imp_entries \<lparr>imp_DLL = Some ''KERNEL32.DLL'', imp_Ordinal = Some 17, imp_Name = None\<rparr> = [PyInt 17] \<and>
   imp_entries \<lparr>imp_DLL = Some ''KERNEL32.DLL'', imp_Ordinal = None, imp_Name = Some ''CreateFileA''\<rparr> =
     [PyStr ''CreateFileA'']"
  using imports_order_and_entries [of "''KERNEL32.DLL''" demo_imports
      "\<lparr>imp_DLL = Some ''KERNEL32.DLL'', imp_Ordinal = Some 17, imp_Name = None\<rparr>" 17
      "\<lparr>imp_DLL = Some ''KERNEL32.DLL'', imp_Ordinal = None, imp_Name = Some ''CreateFileA''\<rparr>"
      "''CreateFileA''"]
  by (simp add: descriptors_of_def demo_imports_def imp_entries_def truthy_int_def truthy_str_def)

text \<open>
  The claim as stated fails for a descriptor whose only component is the ordinal 0, or the
  empty name: the DLL gets an empty list.
\<close>

theorem ordinal_zero_counterexample:
  "imports_loop [[\<lparr>imp_DLL = Some ''WS2_32.DLL'', imp_Ordinal = Some 0, imp_Name = None\<rparr>]] =
     [(''WS2_32.DLL'', [])] \<and>
   imports_loop [[\<lparr>imp_DLL = Some ''WS2_32.DLL'', imp_Ordinal = None, imp_Name = Some []\<rparr>]] =
     [(''WS2_32.DLL'', [])]"
  by (simp add: imports_loop_def imp_body_def setdefault_def append_to_def truthy_int_def
      truthy_str_def)

text \<open>
  Claim C9. The loop body tests \<^verbatim>\<open>imp.get('Ordinal')\<close> and \<^verbatim>\<open>imp.get('Name')\<close> for truth: an
  ordinal 0 is treated exactly as a missing ordinal and an empty name exactly as a missing
  name, whatever the rest of the descriptor and the dictionary built so far. A descriptor
  with a DLL name and the ordinal 0 alone creates the DLL's list and appends nothing to it.
\<close>

theorem falsy_components_dropped:
  "imp_body (i\<lparr>imp_Ordinal := Some 0\<rparr>) imports = imp_body (i\<lparr>imp_Ordinal := None\<rparr>) imports \<and>
   imp_body (i\<lparr>imp_Name := Some []\<rparr>) imports = imp_body (i\<lparr>imp_Name := None\<rparr>) imports \<and>
   imports_loop [[\<lparr>imp_DLL = Some dll, imp_Ordinal = Some 0, imp_Name = None\<rparr>]] =
     (if dll = [] then [] else [(dll, [])])"
  by (simp add: imports_loop_def imp_body_def setdefault_def append_to_def truthy_int_def
      truthy_str_def Let_def)

section \<open>Steps that only add metadata\<close>

lemma writesI:
  "(\<And>m k v. (m, k, v) \<in> set es \<Longrightarrow> k \<in> K) \<Longrightarrow>
   (\<And>st. f st = (r, st\<lparr>metadata := metadata st @ es\<rparr>)) \<Longrightarrow> writes K f"
  unfolding writes_def by blast

lemma writesE:
  assumes "writes K f"
  obtains r es where "\<And>m k v. (m, k, v) \<in> set es \<Longrightarrow> k \<in> K"
    and "\<And>st. f st = (r, st\<lparr>metadata := metadata st @ es\<rparr>)"
  using assms unfolding writes_def by blast

lemma writes_call: "writes K (call r)"
  by (rule writesI [where es = "[]" and r = r]) (simp_all add: call_def)

lemma writes_addMetadata: "k \<in> K \<Longrightarrow> writes K (addMetadata m k v)"
  by (rule writesI [where es = "[(m, k, v)]" and r = "Inr ()"]) (simp_all add: addMetadata_def)

lemma writes_mono: "writes K f \<Longrightarrow> K \<subseteq> K' \<Longrightarrow> writes K' f"
  unfolding writes_def by blast

lemma writes_andThen:
  assumes m: "writes K m" and f: "\<And>a. writes K (f a)"
  shows "writes K (andThen m f)"
proof -
  from m obtain r es where es: "\<forall>(m, k, v) \<in> set es. k \<in> K"
    and eq: "\<forall>st. m st = (r, st\<lparr>metadata := metadata st @ es\<rparr>)"
    unfolding writes_def by blast
  show ?thesis
  proof (cases r)
    case (Inl e)
    show ?thesis
      using es eq by (intro writesI [where es = es and r = "Inl e"]) (auto simp: andThen_def Inl)
  next
    case (Inr a)
    from f [of a] obtain r' es' where es': "\<forall>(m, k, v) \<in> set es'. k \<in> K"
      and eq': "\<forall>st. f a st = (r', st\<lparr>metadata := metadata st @ es'\<rparr>)"
      unfolding writes_def by blast
    show ?thesis
      using es eq es' eq'
      by (intro writesI [where es = "es @ es'" and r = r']) (auto simp: andThen_def Inr)
  qed
qed

lemma seq_Cons_andThen: "seq (f # fs) = andThen f (\<lambda>u. seq fs)"
  by (rule ext) (simp add: andThen_def split: prod.splits sum.splits)

lemma writes_seq:
  "(\<And>f. f \<in> set fs \<Longrightarrow> writes K f) \<Longrightarrow> writes K (seq fs)"
proof (induction fs)
  case Nil
  show ?case
    by (rule writesI [where es = "[]" and r = "Inr ()"]) simp_all
next
  case (Cons f fs)
  show ?case
    unfolding seq_Cons_andThen
    by (rule writes_andThen) (simp_all add: Cons)
qed

lemma writes_try_reraise: "writes K m \<Longrightarrow> writes K (try_reraise m)"
proof (erule writesE)
  fix r es
  assume es: "\<And>m k v. (m, k, v) \<in> set es \<Longrightarrow> k \<in> K"
    and eq: "\<And>st. m st = (r, st\<lparr>metadata := metadata st @ es\<rparr>)"
  show "writes K (try_reraise m)"
    by (rule writesI [where es = es and
          r = "case r of Inl e \<Rightarrow> if cancellation e then Inl e else Inr () | Inr u \<Rightarrow> Inr ()"])
      (auto simp: try_reraise_def eq dest: es split: sum.splits)
qed

lemma writes_try_except: "writes K m \<Longrightarrow> writes K (try_except m)"
proof (erule writesE)
  fix r es
  assume es: "\<And>m k v. (m, k, v) \<in> set es \<Longrightarrow> k \<in> K"
    and eq: "\<And>st. m st = (r, st\<lparr>metadata := metadata st @ es\<rparr>)"
  show "writes K (try_except m)"
    by (rule writesI [where es = es and r = "Inr ()"])
      (auto simp: try_except_def eq dest: es split: sum.splits)
qed

lemmas writes_intros = writes_call writes_addMetadata writes_andThen writes_seq
  writes_try_reraise writes_try_except

lemma writes_Exports: "writes {''Exports''} (field_Exports pe)"
  unfolding field_Exports_def by (auto intro!: writes_intros)

lemma writes_Imphash: "writes {''Imphash''} (field_Imphash pe)"
  unfolding field_Imphash_def by (auto intro!: writes_intros)

lemma writes_Resources: "writes {''Resources''} (field_Resources lib pe)"
  unfolding field_Resources_def resource_type_def resource_entry_def resource_leaf_def
  by (auto intro!: writes_intros)

lemma writes_Imports: "writes {''Imports''} (field_Imports dd)"
  unfolding field_Imports_def by (cases "Imported_symbols dd") (auto intro!: writes_intros)

lemma writes_ImageCharacteristics: "writes {''Image Characteristics''} (field_ImageCharacteristics dd)"
  unfolding field_ImageCharacteristics_def by (auto intro!: writes_intros)

lemma writes_Date: "writes {''Date'', ''Timestamp''} (field_Date lib pe)"
  unfolding field_Date_def by (auto intro!: writes_intros)

lemma writes_MachineType: "writes {''Machine Type''} (field_MachineType lib pe)"
  unfolding field_MachineType_def by (auto intro!: writes_intros)

lemma writes_ImageMagic: "writes {''Image Magic''} field_ImageMagic"
  unfolding field_ImageMagic_def by (auto intro!: writes_intros)

lemma writes_DLLCharacteristics: "writes {''DLL Characteristics''} (field_DLLCharacteristics dd)"
  unfolding field_DLLCharacteristics_def by (auto intro!: writes_intros)

lemma writes_Subsystem: "writes {''Subsystem''} (field_Subsystem lib pe)"
  unfolding field_Subsystem_def by (auto intro!: writes_intros)

lemma writes_StackHeap:
  "writes {''Stack Reserve Size'', ''Stack Commit Size'', ''Heap Reserve Size'', ''Heap Commit Size''}
     (field_StackHeap pe)"
  unfolding field_StackHeap_def by (auto intro!: writes_intros)

lemma writes_EntryPoint: "writes {''EntryPoint''} (field_EntryPoint pe)"
  unfolding field_EntryPoint_def by (auto intro!: writes_intros)

lemma writes_ImageBase: "writes {''ImageBase''} (field_ImageBase pe)"
  unfolding field_ImageBase_def by (auto intro!: writes_intros)

lemma writes_RSDS: "writes {''RSDS''} (field_RSDS scanObj)"
  unfolding field_RSDS_def by (auto intro!: writes_intros)

lemma writes_RichHeader: "writes {''Rich Header''} (field_RichHeader pe)"
  unfolding field_RichHeader_def by (auto intro!: writes_intros)

section \<open>Sections and child buffers\<close>

lemma sections_loop_read:
  "list_all (section_read pe) secs \<Longrightarrow>
   sections_loop pe h secs d st =
     (Inr (sections_dict secs d),
      st\<lparr>moduleResult := moduleResult st @
           map (section_child pe) (filter (\<lambda>s. get_default (sec_MD5 s) [] \<noteq> h) secs)\<rparr>)"
proof (induction secs arbitrary: d st)
  case Nil
  then show ?case by (simp add: sections_dict_def)
next
  case (Cons s secs)
  from Cons.prems have s: "section_read pe s" and rest: "list_all (section_read pe) secs"
    by simp_all
  from s obtain secData va where
    "get_data pe (sec_PointerToRawData s) (sec_SizeOfRawData s) = Inr secData"
    "sec_VirtualAddress s = Some va"
    by (auto simp: section_read_def split: sum.splits)
  then show ?case
    by (simp add: Cons.IH [OF rest] sections_dict_def section_child_def)
qed

lemma writes_rest:
  "f \<in> set (tl (fields lib pe scanObj dd)) \<Longrightarrow> writes (- {''Sections''}) f"
  unfolding fields_def
  by (auto intro: writes_mono [OF writes_Exports] writes_mono [OF writes_Imphash]
      writes_mono [OF writes_Imports] writes_mono [OF writes_ImageCharacteristics]
      writes_mono [OF writes_Date] writes_mono [OF writes_MachineType]
      writes_mono [OF writes_ImageMagic] writes_mono [OF writes_DLLCharacteristics]
      writes_mono [OF writes_Subsystem] writes_mono [OF writes_Resources]
      writes_mono [OF writes_StackHeap] writes_mono [OF writes_EntryPoint]
      writes_mono [OF writes_ImageBase] writes_mono [OF writes_RSDS]
      writes_mono [OF writes_RichHeader])

lemma fields_Cons:
  "fields lib pe scanObj dd = field_Sections pe scanObj dd # tl (fields lib pe scanObj dd)"
  by (simp add: fields_def)

lemma try_body_after_sections:
  assumes pe: "pefile_PE (buffer scanObj) = Inr pe"
    and dd: "dump_dict pe = Inr dd"
    and rd: "list_all (section_read pe) (get_default (PE_Sections dd) [])"
  shows "\<exists>r es. (\<forall>(m, k, v) \<in> set es. k \<noteq> ''Sections'') \<and>
           try_body lib pefile_PE scanObj \<lparr>moduleResult = [], metadata = M\<rparr> =
             (r, \<lparr>moduleResult =
                    map (section_child pe)
                      (filter (\<lambda>s. get_default (sec_MD5 s) [] \<noteq> objectHash scanObj)
                         (get_default (PE_Sections dd) [])),
                  metadata = M @ (''META_PE'', ''Sections'',
                                  PyDict (sections_metadata pe (get_default (PE_Sections dd) []))) # es\<rparr>)"
proof -
  let ?secs = "get_default (PE_Sections dd) []"
  let ?st1 = "\<lparr>moduleResult = map (section_child pe)
                      (filter (\<lambda>s. get_default (sec_MD5 s) [] \<noteq> objectHash scanObj) ?secs),
               metadata = M @ [(''META_PE'', ''Sections'', PyDict (sections_metadata pe ?secs))]\<rparr>"
  have first: "field_Sections pe scanObj dd \<lparr>moduleResult = [], metadata = M\<rparr> = (Inr (), ?st1)"
    by (simp add: field_Sections_def andThen_def sections_loop_read [OF rd] addMetadata_def
        self_module_name_def sections_metadata_def)
  have "writes (- {''Sections''}) (seq (tl (fields lib pe scanObj dd)))"
    by (rule writes_seq) (rule writes_rest)
  then obtain r es where es: "\<forall>(m, k, v) \<in> set es. k \<in> - {''Sections''}"
    and eq: "\<forall>st. seq (tl (fields lib pe scanObj dd)) st = (r, st\<lparr>metadata := metadata st @ es\<rparr>)"
    unfolding writes_def by blast
  have "try_body lib pefile_PE scanObj \<lparr>moduleResult = [], metadata = M\<rparr> =
          seq (fields lib pe scanObj dd) \<lparr>moduleResult = [], metadata = M\<rparr>"
    by (simp add: try_body_def pe dd)
  also have "\<dots> = seq (tl (fields lib pe scanObj dd)) ?st1"
    by (subst fields_Cons) (simp add: first)
  also have "\<dots> = (r, ?st1\<lparr>metadata := metadata ?st1 @ es\<rparr>)"
    using eq by blast
  finally show ?thesis
    using es by (intro exI [of _ r] exI [of _ es]) auto
qed

lemma sections_loop_takeWhile:
  "\<exists>r. \<forall>st. sections_loop pe h secs d st =
        (r, st\<lparr>moduleResult := moduleResult st @
                map (section_child pe)
                  (filter (\<lambda>s. get_default (sec_MD5 s) [] \<noteq> h)
                     (takeWhile (section_read pe) secs))\<rparr>)"
proof (induction secs arbitrary: d)
  case Nil
  show ?case
    by (intro exI [of _ "Inr d"]) simp
next
  case (Cons s secs)
  show ?case
  proof (cases "get_data pe (sec_PointerToRawData s) (sec_SizeOfRawData s)")
    case (Inl e)
    then show ?thesis
      by (intro exI [of _ "Inl e"]) (simp add: section_read_def)
  next
    case (Inr secData)
    show ?thesis
    proof (cases "sec_VirtualAddress s")
      case None
      with Inr show ?thesis
        by (intro exI [of _ "Inl TypeError"]) (simp add: section_read_def)
    next
      case (Some va)
      from Cons.IH [of "AList.update (secName s) (PyDict (secInfo s va)) d"]
      obtain r where
        eq: "\<forall>st. sections_loop pe h secs
            (AList.update (secName s) (PyDict (secInfo s va)) d) st =
          (r, st\<lparr>moduleResult := moduleResult st @
                  map (section_child pe)
                    (filter (\<lambda>s. get_default (sec_MD5 s) [] \<noteq> h)
                       (takeWhile (section_read pe) secs))\<rparr>)"
        by blast
      from Inr Some have sr: "section_read pe s"
        and child: "section_child pe s = \<lparr>mo_buffer = secData, mo_filename = secName s\<rparr>"
        by (simp_all add: section_child_def section_read_def)
      from Inr Some eq show ?thesis
        by (intro exI [of _ r]) (simp add: sr child)
    qed
  qed
qed

lemma try_body_children:
  assumes pe: "pefile_PE (buffer scanObj) = Inr pe"
    and dd: "dump_dict pe = Inr dd"
  shows "\<exists>r st.
           try_body lib pefile_PE scanObj \<lparr>moduleResult = [], metadata = M\<rparr> = (r, st) \<and>
           moduleResult st =
             map (section_child pe)
               (filter (\<lambda>s. get_default (sec_MD5 s) [] \<noteq> objectHash scanObj)
                  (takeWhile (section_read pe) (get_default (PE_Sections dd) [])))"
proof -
  let ?secs = "get_default (PE_Sections dd) []"
  let ?st0 = "\<lparr>moduleResult = [], metadata = M\<rparr>"
  let ?children = "map (section_child pe)
                     (filter (\<lambda>s. get_default (sec_MD5 s) [] \<noteq> objectHash scanObj)
                        (takeWhile (section_read pe) ?secs))"
  from sections_loop_takeWhile [of pe "objectHash scanObj" ?secs "[]"]
  obtain r1 where
    eq1: "\<forall>st. sections_loop pe (objectHash scanObj) ?secs [] st =
        (r1, st\<lparr>moduleResult := moduleResult st @ ?children\<rparr>)"
    by blast
  have body: "try_body lib pefile_PE scanObj ?st0 = seq (fields lib pe scanObj dd) ?st0"
    by (simp add: try_body_def pe dd)
  show ?thesis
  proof (cases r1)
    case (Inl e)
    have "field_Sections pe scanObj dd ?st0 = (Inl e, ?st0\<lparr>moduleResult := ?children\<rparr>)"
      by (simp add: field_Sections_def andThen_def eq1 Inl)
    then have "seq (fields lib pe scanObj dd) ?st0 = (Inl e, ?st0\<lparr>moduleResult := ?children\<rparr>)"
      by (subst fields_Cons) simp
    with body show ?thesis
      by (intro exI [of _ "Inl e"]) simp
  next
    case (Inr sections)
    let ?st1 = "\<lparr>moduleResult = ?children,
               metadata = M @ [(self_module_name, ''Sections'',
                 PyDict (AList.update ''Total'' (PyInt (NumberOfSections pe)) sections))]\<rparr>"
    have first: "field_Sections pe scanObj dd ?st0 = (Inr (), ?st1)"
      by (simp add: field_Sections_def andThen_def eq1 Inr addMetadata_def)
    have "writes (- {''Sections''}) (seq (tl (fields lib pe scanObj dd)))"
      by (rule writes_seq) (rule writes_rest)
    then obtain r es where
      eq: "\<forall>st. seq (tl (fields lib pe scanObj dd)) st = (r, st\<lparr>metadata := metadata st @ es\<rparr>)"
      unfolding writes_def by blast
    have "seq (fields lib pe scanObj dd) ?st0 = seq (tl (fields lib pe scanObj dd)) ?st1"
      by (subst fields_Cons) (simp add: first)
    also have "\<dots> = (r, ?st1\<lparr>metadata := metadata ?st1 @ es\<rparr>)"
      using eq by blast
    finally show ?thesis
      using body by (intro exI [of _ r]) simp
  qed
qed

text \<open>
  Claim C6. The loop stops at the first section on which \<^verbatim>\<open>pe.get_data\<close> raises or whose
  virtual address is missing, so the sections it goes through are those before that one.
  When pefile has parsed the buffer and \<^verbatim>\<open>_run\<close> returns a list, the list is exactly the
  child buffers, in table order, of the sections the loop went through whose MD5 is other
  than \<^verbatim>\<open>scanObject.objectHash\<close>: among these sections a section is emitted if and only if
  its MD5 differs, and no section with the hash of the whole object is ever emitted. When
  the loop reads every section of the table, these are all the sections. A section from
  the failing one on is not emitted, even with an MD5 that differs.
\<close>

theorem children_are_sections_with_other_hash:
  assumes "pefile_PE (buffer scanObj) = Inr pe"
    and "dump_dict pe = Inr dd"
    and "fst (META_PE_run lib pefile_PE scanObj) = Inr result"
  shows "result =
           map (section_child pe)
             (filter (\<lambda>section. get_default (sec_MD5 section) [] \<noteq> objectHash scanObj)
                (takeWhile (section_read pe) (get_default (PE_Sections dd) []))) \<and>
         (list_all (section_read pe) (get_default (PE_Sections dd) []) \<longrightarrow>
            result =
              map (section_child pe)
                (filter (\<lambda>section. get_default (sec_MD5 section) [] \<noteq> objectHash scanObj)
                   (get_default (PE_Sections dd) [])))"
proof -
  from try_body_children [where pefile_PE = pefile_PE and scanObj = scanObj and lib = lib
      and M = "moduleMetadata scanObj", OF assms(1,2)]
  obtain r st where
    eq: "try_body lib pefile_PE scanObj
               \<lparr>moduleResult = [], metadata = moduleMetadata scanObj\<rparr> = (r, st)"
    and st: "moduleResult st =
               map (section_child pe)
                 (filter (\<lambda>s. get_default (sec_MD5 s) [] \<noteq> objectHash scanObj)
                    (takeWhile (section_read pe) (get_default (PE_Sections dd) [])))"
    by blast
  from assms(3) eq st have res: "result =
      map (section_child pe)
        (filter (\<lambda>s. get_default (sec_MD5 s) [] \<noteq> objectHash scanObj)
           (takeWhile (section_read pe) (get_default (PE_Sections dd) [])))"
    by (auto simp: META_PE_run_def split: sum.splits if_splits)
  show ?thesis
  proof (intro conjI impI)
    from res show "result =
        map (section_child pe)
          (filter (\<lambda>section. get_default (sec_MD5 section) [] \<noteq> objectHash scanObj)
             (takeWhile (section_read pe) (get_default (PE_Sections dd) [])))" .
  next
    assume "list_all (section_read pe) (get_default (PE_Sections dd) [])"
    then have "takeWhile (section_read pe) (get_default (PE_Sections dd) []) =
                 get_default (PE_Sections dd) []"
      by (simp add: list_all_iff)
    with res show "result =
        map (section_child pe)
          (filter (\<lambda>section. get_default (sec_MD5 section) [] \<noteq> objectHash scanObj)
             (get_default (PE_Sections dd) []))"
      by simp
  qed
qed

theorem children_are_sections_with_other_hash_witness:
  "fst (META_PE_run demo_library (\<lambda>b. Inr demo_pe) demo_scanObject) =
     Inr [\<lparr>mo_buffer = ''code'', mo_filename = ''.text''\<rparr>] \<and>
   get_default (sec_MD5 demo_text) [] \<noteq> objectHash demo_scanObject \<and>
   get_default (sec_MD5 demo_data) [] = objectHash demo_scanObject \<and>
   takeWhile (section_read demo_pe) [demo_text, demo_data] = [demo_text, demo_data] \<and>
   [\<lparr>mo_buffer = ''code'', mo_filename = ''.text''\<rparr>] =
     map (section_child demo_pe)
       (filter (\<lambda>section. get_default (sec_MD5 section) [] \<noteq> objectHash demo_scanObject)
          [demo_text, demo_data])"
proof -
  have run: "fst (META_PE_run demo_library (\<lambda>b. Inr demo_pe) demo_scanObject) =
     Inr [\<lparr>mo_buffer = ''code'', mo_filename = ''.text''\<rparr>]"
    by (simp add: run_defs demo_defs)
  have rd: "list_all (section_read demo_pe) (get_default (PE_Sections demo_dump) [])"
    by (simp add: demo_defs section_read_def get_default_def)
  have dd: "dump_dict demo_pe = Inr demo_dump"
    by (simp add: demo_pe_def)
  have pe: "(\<lambda>b. Inr demo_pe) (buffer demo_scanObject) = Inr demo_pe"
    by simp
  have secs: "get_default (PE_Sections demo_dump) [] = [demo_text, demo_data]"
    by (simp add: demo_dump_def get_default_def)
  from children_are_sections_with_other_hash
      [where pefile_PE = "\<lambda>b. Inr demo_pe" and scanObj = demo_scanObject, OF pe dd run] rd
  have "[\<lparr>mo_buffer = ''code'', mo_filename = ''.text''\<rparr>] =
     map (section_child demo_pe)
       (filter (\<lambda>section. get_default (sec_MD5 section) [] \<noteq> objectHash demo_scanObject)
          (get_default (PE_Sections demo_dump) []))"
    by blast
  moreover have "takeWhile (section_read demo_pe) [demo_text, demo_data] = [demo_text, demo_data]"
    using rd by (simp add: secs)
  moreover have "get_default (sec_MD5 demo_text) [] \<noteq> objectHash demo_scanObject"
    "get_default (sec_MD5 demo_data) [] = objectHash demo_scanObject"
    by (simp_all add: demo_defs get_default_def)
  ultimately show ?thesis
    using run by (simp add: secs)
qed

text \<open>
  The claim as it stands fails when the loop does not reach a section. Both sections of the
  table below have an MD5 other than the object hash. When \<^verbatim>\<open>pe.get_data\<close> raises
  \<^verbatim>\<open>PEFormatError\<close> on the first section, \<^verbatim>\<open>_run\<close> returns the empty list; when it raises
  on the second section only, \<^verbatim>\<open>_run\<close> returns the child of the first section alone.
\<close>

theorem unread_section_counterexample:
  "dump_dict demo_pe = Inr demo_dump \<and>
   PE_Sections demo_dump = Some [demo_text, demo_data] \<and>
   get_default (sec_MD5 demo_text) [] \<noteq> ''other'' \<and>
   get_default (sec_MD5 demo_data) [] \<noteq> ''other'' \<and>
   META_PE_run demo_library
     (\<lambda>b. Inr (demo_pe\<lparr>get_data := \<lambda>p s. Inl PEFormatError\<rparr>))
     (demo_scanObject\<lparr>objectHash := ''other''\<rparr>) =
     (Inr [], demo_scanObject\<lparr>objectHash := ''other''\<rparr>) \<and>
   META_PE_run demo_library
     (\<lambda>b. Inr (demo_pe\<lparr>get_data := \<lambda>p s. if p = Some 512 then Inr ''code''
                                          else Inl PEFormatError\<rparr>))
     (demo_scanObject\<lparr>objectHash := ''other''\<rparr>) =
     (Inr [\<lparr>mo_buffer = ''code'', mo_filename = ''.text''\<rparr>],
      demo_scanObject\<lparr>objectHash := ''other''\<rparr>)"
  by (simp add: run_defs demo_defs)

section \<open>The Sections metadata\<close>

lemma run_metadata:
  "moduleMetadata (snd (META_PE_run lib pefile_PE scanObj)) =
     metadata (snd (try_body lib pefile_PE scanObj
                      \<lparr>moduleResult = [], metadata = moduleMetadata scanObj\<rparr>))"
  by (simp add: META_PE_run_def split: prod.splits sum.splits)

lemma filter_other_keys:
  "\<forall>(m, k, v) \<in> set es. k \<noteq> key \<Longrightarrow> filter (\<lambda>(m, k, v). k = key) es = []"
  by (induction es) auto

lemma sections_dict_Cons:
  "sections_dict (s # secs) d =
     sections_dict secs
       (AList.update (secName s) (PyDict (secInfo s (the (sec_VirtualAddress s)))) d)"
  by (simp add: sections_dict_def)

lemma sections_dict_append:
  "sections_dict (pre @ post) d = sections_dict post (sections_dict pre d)"
  by (simp add: sections_dict_def)

lemma sections_dict_other:
  "n \<notin> secName ` set secs \<Longrightarrow> map_of (sections_dict secs d) n = map_of d n"
proof (induction secs arbitrary: d)
  case Nil
  show ?case by (simp add: sections_dict_def)
next
  case (Cons s secs)
  then show ?case by (simp add: sections_dict_Cons update_conv')
qed

lemma sections_dict_last:
  "secName s \<notin> secName ` set post \<Longrightarrow>
   map_of (sections_dict (pre @ s # post) d) (secName s) =
     Some (PyDict (secInfo s (the (sec_VirtualAddress s))))"
  by (simp add: sections_dict_append sections_dict_Cons sections_dict_other update_conv')

lemma sections_loop_unread:
  "\<not> list_all (section_read pe) secs \<Longrightarrow>
   \<exists>e st'. sections_loop pe h secs d st = (Inl e, st') \<and> metadata st' = metadata st"
proof (induction secs arbitrary: d st)
  case Nil
  then show ?case by simp
next
  case (Cons s secs)
  show ?case
  proof (cases "get_data pe (sec_PointerToRawData s) (sec_SizeOfRawData s)")
    case (Inl e)
    then show ?thesis by simp
  next
    case (Inr secData)
    show ?thesis
    proof (cases "sec_VirtualAddress s")
      case None
      with Inr show ?thesis by simp
    next
      case (Some va)
      with Inr have "section_read pe s"
        by (simp add: section_read_def)
      with Cons.prems have rest: "\<not> list_all (section_read pe) secs"
        by simp
      let ?d = "AList.update (secName s) (PyDict (secInfo s va)) d"
      let ?st = "if get_default (sec_MD5 s) [] \<noteq> h
                 then st\<lparr>moduleResult := moduleResult st @
                        [\<lparr>mo_buffer = secData, mo_filename = secName s\<rparr>]\<rparr>
                 else st"
      from Cons.IH [OF rest, of ?d ?st]
      obtain e st' where "sections_loop pe h secs ?d ?st = (Inl e, st')"
        and "metadata st' = metadata ?st"
        by blast
      with Inr Some show ?thesis
        by (intro exI [of _ e] exI [of _ st']) simp
    qed
  qed
qed

lemma try_body_unread:
  assumes pe: "pefile_PE (buffer scanObj) = Inr pe"
    and dd: "dump_dict pe = Inr dd"
    and rd: "\<not> list_all (section_read pe) (get_default (PE_Sections dd) [])"
  shows "metadata (snd (try_body lib pefile_PE scanObj \<lparr>moduleResult = [], metadata = M\<rparr>)) = M"
proof -
  let ?st0 = "\<lparr>moduleResult = [], metadata = M\<rparr>"
  from sections_loop_unread [OF rd, of "objectHash scanObj" "[]" ?st0]
  obtain e st' where
    loop: "sections_loop pe (objectHash scanObj) (get_default (PE_Sections dd) []) [] ?st0 =
             (Inl e, st')"
    and st': "metadata st' = M"
    by auto
  have "field_Sections pe scanObj dd ?st0 = (Inl e, st')"
    by (simp add: field_Sections_def andThen_def loop)
  then have "seq (fields lib pe scanObj dd) ?st0 = (Inl e, st')"
    by (subst fields_Cons) simp
  then have "try_body lib pefile_PE scanObj ?st0 = (Inl e, st')"
    by (simp add: try_body_def pe dd)
  with st' show ?thesis
    by simp
qed

text \<open>
  Claim C10. The test on the MD5 guards the \<^verbatim>\<open>append\<close> to the child buffers only. When
  pefile has parsed the buffer and the loop reads every section of the table, one
  dictionary is added under \<open>Sections\<close> whatever the object hash \<open>h\<close> is, so also when
  \<open>h\<close> is the MD5 of a section. In this dictionary \<open>Total\<close> is \<^verbatim>\<open>NumberOfSections\<close> of the
  file header, and under the name of a section is the record of the section (virtual
  address, virtual and raw size, MD5, SHA1, SHA256, entropy, characteristics, structure),
  unless a later section has the same name or the name is \<open>Total\<close>: the dictionary is keyed
  by name and the last assignment stays. When the loop fails on a section, nothing is added
  under \<open>Sections\<close>, whatever the hash.
\<close>

theorem excluded_section_still_recorded:
  assumes "pefile_PE (buffer scanObj) = Inr pe"
    and "dump_dict pe = Inr dd"
  shows "(list_all (section_read pe) (get_default (PE_Sections dd) []) \<longrightarrow>
          (\<exists>sections.
             (\<forall>h. metadata_of ''Sections''
                    (snd (META_PE_run lib pefile_PE (scanObj\<lparr>objectHash := h\<rparr>))) =
                  metadata_of ''Sections'' scanObj @ [PyDict sections]) \<and>
             map_of sections ''Total'' = Some (PyInt (NumberOfSections pe)) \<and>
             (\<forall>pre section post.
                get_default (PE_Sections dd) [] = pre @ section # post \<and>
                secName section \<notin> secName ` set post \<and>
                secName section \<noteq> ''Total'' \<longrightarrow>
                map_of sections (secName section) =
                  Some (PyDict
                    [(''Virtual Address'',
                        PyStr (''0x'' @ fmt_08X (the (sec_VirtualAddress section)))),
                     (''Virtual Size'', opt_int (sec_Misc_VirtualSize section)),
                     (''Raw Size'', opt_int (sec_SizeOfRawData section)),
                     (''MD5'', PyStr (get_default (sec_MD5 section) [])),
                     (''SHA1'', PyStr (get_default (sec_SHA1 section) [])),
                     (''SHA256'', PyStr (get_default (sec_SHA256 section) [])),
                     (''Entropy'',
                        (case sec_Entropy section of None \<Rightarrow> PyStr [] | Some x \<Rightarrow> PyFloat x)),
                     (''Section Characteristics'',
                        PyList (map PyStr (get_default (sec_Flags section) []))),
                     (''Structure'', PyStr (get_default (sec_Structure section) []))])))) \<and>
         (\<not> list_all (section_read pe) (get_default (PE_Sections dd) []) \<longrightarrow>
          (\<forall>h. metadata_of ''Sections''
                 (snd (META_PE_run lib pefile_PE (scanObj\<lparr>objectHash := h\<rparr>))) =
               metadata_of ''Sections'' scanObj))"
proof (intro conjI impI)
  let ?secs = "get_default (PE_Sections dd) []"
  assume rd: "list_all (section_read pe) ?secs"
  have run: "metadata_of ''Sections''
               (snd (META_PE_run lib pefile_PE (scanObj\<lparr>objectHash := h\<rparr>))) =
             metadata_of ''Sections'' scanObj @ [PyDict (sections_metadata pe ?secs)]" for h
  proof -
    let ?so = "scanObj\<lparr>objectHash := h\<rparr>"
    have pe: "pefile_PE (buffer ?so) = Inr pe"
      using assms(1) by simp
    from try_body_after_sections [where pefile_PE = pefile_PE and scanObj = ?so and lib = lib
        and M = "moduleMetadata scanObj", OF pe assms(2) rd]
    obtain r es st where es: "\<forall>(m, k, v) \<in> set es. k \<noteq> ''Sections''"
      and eq: "try_body lib pefile_PE ?so
                 \<lparr>moduleResult = [], metadata = moduleMetadata scanObj\<rparr> = (r, st)"
      and st: "metadata st = moduleMetadata scanObj @
                (''META_PE'', ''Sections'', PyDict (sections_metadata pe ?secs)) # es"
      by force
    show ?thesis
      by (simp add: metadata_of_def run_metadata eq st filter_other_keys [OF es])
  qed
  have total: "map_of (sections_metadata pe ?secs) ''Total'' = Some (PyInt (NumberOfSections pe))"
    by (simp add: sections_metadata_def update_conv')
  have last: "map_of (sections_metadata pe ?secs) (secName s) =
                Some (PyDict (secInfo s (the (sec_VirtualAddress s))))"
    if "?secs = pre @ s # post \<and> secName s \<notin> secName ` set post \<and> secName s \<noteq> ''Total''"
    for pre s post
    using that by (simp add: sections_metadata_def update_conv' sections_dict_last)
  show "\<exists>sections.
          (\<forall>h. metadata_of ''Sections''
                 (snd (META_PE_run lib pefile_PE (scanObj\<lparr>objectHash := h\<rparr>))) =
               metadata_of ''Sections'' scanObj @ [PyDict sections]) \<and>
          map_of sections ''Total'' = Some (PyInt (NumberOfSections pe)) \<and>
          (\<forall>pre section post.
             ?secs = pre @ section # post \<and>
             secName section \<notin> secName ` set post \<and>
             secName section \<noteq> ''Total'' \<longrightarrow>
             map_of sections (secName section) =
               Some (PyDict
                 [(''Virtual Address'',
                     PyStr (''0x'' @ fmt_08X (the (sec_VirtualAddress section)))),
                  (''Virtual Size'', opt_int (sec_Misc_VirtualSize section)),
                  (''Raw Size'', opt_int (sec_SizeOfRawData section)),
                  (''MD5'', PyStr (get_default (sec_MD5 section) [])),
                  (''SHA1'', PyStr (get_default (sec_SHA1 section) [])),
                  (''SHA256'', PyStr (get_default (sec_SHA256 section) [])),
                  (''Entropy'',
                     (case sec_Entropy section of None \<Rightarrow> PyStr [] | Some x \<Rightarrow> PyFloat x)),
                  (''Section Characteristics'',
                     PyList (map PyStr (get_default (sec_Flags section) []))),
                  (''Structure'', PyStr (get_default (sec_Structure section) []))]))"
    using run total last unfolding secInfo_def
    by (intro exI [of _ "sections_metadata pe ?secs"]) blast
next
  let ?secs = "get_default (PE_Sections dd) []"
  assume rd: "\<not> list_all (section_read pe) ?secs"
  show "\<forall>h. metadata_of ''Sections''
              (snd (META_PE_run lib pefile_PE (scanObj\<lparr>objectHash := h\<rparr>))) =
            metadata_of ''Sections'' scanObj"
  proof
    fix h
    let ?so = "scanObj\<lparr>objectHash := h\<rparr>"
    have pe: "pefile_PE (buffer ?so) = Inr pe"
      using assms(1) by simp
    from try_body_unread [where pefile_PE = pefile_PE and scanObj = ?so and lib = lib
        and M = "moduleMetadata scanObj", OF pe assms(2) rd]
    show "metadata_of ''Sections'' (snd (META_PE_run lib pefile_PE ?so)) =
            metadata_of ''Sections'' scanObj"
      by (simp add: metadata_of_def run_metadata)
  qed
qed

theorem excluded_section_still_recorded_witness:
  "get_default (sec_MD5 demo_data) [] = objectHash demo_scanObject \<and>
   fst (META_PE_run demo_library (\<lambda>b. Inr demo_pe) demo_scanObject) =
     Inr [\<lparr>mo_buffer = ''code'', mo_filename = ''.text''\<rparr>] \<and>
   (\<exists>sections.
      metadata_of ''Sections''
        (snd (META_PE_run demo_library (\<lambda>b. Inr demo_pe) demo_scanObject)) =
        [PyDict sections] \<and>
      map_of sections ''Total'' = Some (PyInt 2) \<and>
      map_of sections ''.data'' =
        Some (PyDict
          [(''Virtual Address'', PyStr ''0x00002000''),
           (''Virtual Size'', PyInt 4),
           (''Raw Size'', PyInt 512),
           (''MD5'', PyStr ''md5-of-file''),
           (''SHA1'', PyStr ''sha1-of-data''),
           (''SHA256'', PyStr ''sha256-of-data''),
           (''Entropy'', PyStr []),
           (''Section Characteristics'', PyList []),
           (''Structure'', PyStr [])])) \<and>
   \<not> list_all (section_read (demo_pe\<lparr>get_data := \<lambda>p s. Inl PEFormatError\<rparr>))
         [demo_text, demo_data] \<and>
   metadata_of ''Sections''
     (snd (META_PE_run demo_library
             (\<lambda>b. Inr (demo_pe\<lparr>get_data := \<lambda>p s. Inl PEFormatError\<rparr>)) demo_scanObject)) = []"
proof -
  let ?pe' = "demo_pe\<lparr>get_data := \<lambda>p s. Inl PEFormatError\<rparr>"
  have nrd: "\<not> list_all (section_read ?pe') (get_default (PE_Sections demo_dump) [])"
    by (simp add: demo_defs section_read_def get_default_def)
  have dd': "dump_dict ?pe' = Inr demo_dump"
    by (simp add: demo_pe_def)
  have pe': "(\<lambda>b. Inr ?pe') (buffer demo_scanObject) = Inr ?pe'"
    by simp
  have rd: "list_all (section_read demo_pe) (get_default (PE_Sections demo_dump) [])"
    by (simp add: demo_defs section_read_def get_default_def)
  have dd: "dump_dict demo_pe = Inr demo_dump"
    by (simp add: demo_pe_def)
  have pe: "(\<lambda>b. Inr demo_pe) (buffer demo_scanObject) = Inr demo_pe"
    by simp
  have so: "demo_scanObject\<lparr>objectHash := ''md5-of-file''\<rparr> = demo_scanObject"
    by (simp add: demo_scanObject_def)
  have secs: "get_default (PE_Sections demo_dump) [] = [demo_text] @ demo_data # []"
    by (simp add: demo_dump_def get_default_def)
  have name: "secName demo_data = ''.data''"
    by (simp add: secName_def strip_nul_def get_default_def demo_data_def)
  have md5: "get_default (sec_MD5 demo_data) [] = objectHash demo_scanObject"
    by (simp add: demo_defs get_default_def)
  have children: "fst (META_PE_run demo_library (\<lambda>b. Inr demo_pe) demo_scanObject) =
     Inr [\<lparr>mo_buffer = ''code'', mo_filename = ''.text''\<rparr>]"
    by (simp add: run_defs demo_defs)
  have va: "fmt_08X 8192 = ''00002000''"
    by code_simp
  have rec_eq: "[(''Virtual Address'', PyStr (''0x'' @ fmt_08X (the (sec_VirtualAddress demo_data)))),
           (''Virtual Size'', opt_int (sec_Misc_VirtualSize demo_data)),
           (''Raw Size'', opt_int (sec_SizeOfRawData demo_data)),
           (''MD5'', PyStr (get_default (sec_MD5 demo_data) [])),
           (''SHA1'', PyStr (get_default (sec_SHA1 demo_data) [])),
           (''SHA256'', PyStr (get_default (sec_SHA256 demo_data) [])),
           (''Entropy'',
              (case sec_Entropy demo_data of None \<Rightarrow> PyStr [] | Some x \<Rightarrow> PyFloat x)),
           (''Section Characteristics'',
              PyList (map PyStr (get_default (sec_Flags demo_data) []))),
           (''Structure'', PyStr (get_default (sec_Structure demo_data) []))] =
          [(''Virtual Address'', PyStr ''0x00002000''),
           (''Virtual Size'', PyInt 4),
           (''Raw Size'', PyInt 512),
           (''MD5'', PyStr ''md5-of-file''),
           (''SHA1'', PyStr ''sha1-of-data''),
           (''SHA256'', PyStr ''sha256-of-data''),
           (''Entropy'', PyStr []),
           (''Section Characteristics'', PyList []),
           (''Structure'', PyStr [])]"
    by (simp add: run_defs demo_defs va)
  from excluded_section_still_recorded [where pefile_PE = "\<lambda>b. Inr demo_pe"
      and scanObj = demo_scanObject and lib = demo_library, OF pe dd] rd
  obtain sections where
    run: "\<forall>h. metadata_of ''Sections''
            (snd (META_PE_run demo_library (\<lambda>b. Inr demo_pe)
                    (demo_scanObject\<lparr>objectHash := h\<rparr>))) =
          metadata_of ''Sections'' demo_scanObject @ [PyDict sections]"
    and total: "map_of sections ''Total'' = Some (PyInt (NumberOfSections demo_pe))"
    and last: "\<forall>pre section post.
          get_default (PE_Sections demo_dump) [] = pre @ section # post \<and>
          secName section \<notin> secName ` set post \<and>
          secName section \<noteq> ''Total'' \<longrightarrow>
          map_of sections (secName section) =
            Some (PyDict
              [(''Virtual Address'',
                  PyStr (''0x'' @ fmt_08X (the (sec_VirtualAddress section)))),
               (''Virtual Size'', opt_int (sec_Misc_VirtualSize section)),
               (''Raw Size'', opt_int (sec_SizeOfRawData section)),
               (''MD5'', PyStr (get_default (sec_MD5 section) [])),
               (''SHA1'', PyStr (get_default (sec_SHA1 section) [])),
               (''SHA256'', PyStr (get_default (sec_SHA256 section) [])),
               (''Entropy'',
                  (case sec_Entropy section of None \<Rightarrow> PyStr [] | Some x \<Rightarrow> PyFloat x)),
               (''Section Characteristics'',
                  PyList (map PyStr (get_default (sec_Flags section) []))),
               (''Structure'', PyStr (get_default (sec_Structure section) []))])"
    by blast
  from run [rule_format, of "''md5-of-file''"]
  have a: "metadata_of ''Sections''
             (snd (META_PE_run demo_library (\<lambda>b. Inr demo_pe) demo_scanObject)) =
           [PyDict sections]"
    by (simp add: so) (simp add: metadata_of_def demo_scanObject_def)
  from total have b: "map_of sections ''Total'' = Some (PyInt 2)"
    by (simp add: demo_pe_def)
  from last [rule_format, of "[demo_text]" demo_data "[]"]
  have c: "map_of sections ''.data'' =
        Some (PyDict
          [(''Virtual Address'', PyStr ''0x00002000''),
           (''Virtual Size'', PyInt 4),
           (''Raw Size'', PyInt 512),
           (''MD5'', PyStr ''md5-of-file''),
           (''SHA1'', PyStr ''sha1-of-data''),
           (''SHA256'', PyStr ''sha256-of-data''),
           (''Entropy'', PyStr []),
           (''Section Characteristics'', PyList []),
           (''Structure'', PyStr [])])"
    unfolding rec_eq by (simp add: secs name)
  from excluded_section_still_recorded [where pefile_PE = "\<lambda>b. Inr ?pe'"
      and scanObj = demo_scanObject and lib = demo_library, OF pe' dd'] nrd
  have "\<forall>h. metadata_of ''Sections''
            (snd (META_PE_run demo_library (\<lambda>b. Inr ?pe')
                    (demo_scanObject\<lparr>objectHash := h\<rparr>))) =
          metadata_of ''Sections'' demo_scanObject"
    by blast
  from this [rule_format, of "''md5-of-file''"]
  have d: "metadata_of ''Sections''
             (snd (META_PE_run demo_library (\<lambda>b. Inr ?pe') demo_scanObject)) = []"
    by (simp add: so) (simp add: metadata_of_def demo_scanObject_def)
  from nrd have e: "\<not> list_all (section_read ?pe') [demo_text, demo_data]"
    by (simp add: demo_dump_def get_default_def)
  from md5 children a b c d e show ?thesis
    by blast
qed

text \<open>
  The claim as it stands fails in two ways. The section \<open>.data\<close> below has the MD5 of the
  whole object. Followed by a section of the same name, its record is not in the
  dictionary: the record found under \<open>.data\<close> is the one of the later section. Followed by
  a section on which \<^verbatim>\<open>pe.get_data\<close> raises \<^verbatim>\<open>PEFormatError\<close>, it has no record at all:
  \<^verbatim>\<open>_run\<close> returns without any metadata.
\<close>

theorem excluded_section_record_lost_counterexample:
  "get_default (sec_MD5 demo_data) [] = objectHash demo_scanObject \<and>
   secName demo_data = ''.data'' \<and>
   metadata_of ''Sections''
     (snd (META_PE_run demo_library
        (\<lambda>b. Inr (demo_pe\<lparr>dump_dict :=
                 Inr (demo_dump\<lparr>PE_Sections :=
                        Some [demo_data, demo_text\<lparr>sec_Name := Some ''.data''\<rparr>]\<rparr>)\<rparr>))
        demo_scanObject)) =
     [PyDict
        [(''.data'',
          PyDict
            [(''Virtual Address'', PyStr ''0x00001000''),
             (''Virtual Size'', PyInt 10),
             (''Raw Size'', PyInt 512),
             (''MD5'', PyStr ''md5-of-text''),
             (''SHA1'', PyStr ''sha1-of-text''),
             (''SHA256'', PyStr ''sha256-of-text''),
             (''Entropy'', PyFloat 6),
             (''Section Characteristics'', PyList [PyStr ''IMAGE_SCN_CNT_CODE'']),
             (''Structure'', PyStr ''IMAGE_SECTION_HEADER'')]),
         (''Total'', PyInt 2)]] \<and>
   META_PE_run demo_library
     (\<lambda>b. Inr (demo_pe\<lparr>dump_dict :=
              Inr (demo_dump\<lparr>PE_Sections := Some [demo_data, demo_text]\<rparr>),
            get_data := \<lambda>p s. if p = Some 1024 then Inr ''data'' else Inl PEFormatError\<rparr>))
     demo_scanObject =
     (Inr [], demo_scanObject)"
proof -
  have va: "fmt_08X 4096 = ''00001000''"
    by code_simp
  show ?thesis
    by (simp add: run_defs demo_defs va)
qed

section \<open>Runs that differ in the guarded fields\<close>

lemma sim_refl: "sim st st"
  by (simp add: sim_def)

lemma rel_step_shape:
  assumes "\<And>st. f st = (r, st\<lparr>moduleResult := moduleResult st @ ms, metadata := metadata st @ es\<rparr>)"
  shows "rel_step f f"
  by (simp add: rel_step_def sim_def assms)

lemma rel_step_writes: "writes K f \<Longrightarrow> rel_step f f"
proof -
  assume "writes K f"
  then obtain r es where "\<forall>st. f st = (r, st\<lparr>metadata := metadata st @ es\<rparr>)"
    unfolding writes_def by blast
  then have "\<And>st. f st = (r, st\<lparr>moduleResult := moduleResult st @ [], metadata := metadata st @ es\<rparr>)"
    by simp
  then show ?thesis
    by (rule rel_step_shape)
qed

lemma rel_step_guarded:
  assumes f: "writes K f" and g: "writes K g" and K: "K \<subseteq> guarded_keys"
    and rf: "fst (f \<lparr>moduleResult = [], metadata = []\<rparr>) = Inr ()"
    and rg: "fst (g \<lparr>moduleResult = [], metadata = []\<rparr>) = Inr ()"
  shows "rel_step f g"
proof -
  from f obtain r es where es: "\<forall>(m, k, v) \<in> set es. k \<in> K"
    and eq: "\<forall>st. f st = (r, st\<lparr>metadata := metadata st @ es\<rparr>)"
    unfolding writes_def by blast
  from g obtain r' es' where es': "\<forall>(m, k, v) \<in> set es'. k \<in> K"
    and eq': "\<forall>st. g st = (r', st\<lparr>metadata := metadata st @ es'\<rparr>)"
    unfolding writes_def by blast
  from rf eq have r: "r = Inr ()" by simp
  from rg eq' have r': "r' = Inr ()" by simp
  from es K have "filter (\<lambda>(m, k, v). k \<notin> guarded_keys) es = []"
    by (auto simp: filter_empty_conv)
  moreover from es' K have "filter (\<lambda>(m, k, v). k \<notin> guarded_keys) es' = []"
    by (auto simp: filter_empty_conv)
  ultimately show ?thesis
    using eq eq' by (simp add: rel_step_def sim_def r r')
qed

lemma rel_step_seq:
  "list_all2 rel_step fs gs \<Longrightarrow> rel_step (seq fs) (seq gs)"
proof (induction rule: list_all2_induct)
  case Nil
  show ?case by (simp add: rel_step_def)
next
  case (Cons f fs g gs)
  show ?case
    unfolding rel_step_def
  proof (intro allI impI)
    fix st st'
    assume s: "sim st st'"
    with Cons.hyps(1) have 1: "fst (f st) = fst (g st')" and 2: "sim (snd (f st)) (snd (g st'))"
      by (simp_all add: rel_step_def)
    from Cons.IH 2 have 3: "fst (seq fs (snd (f st))) = fst (seq gs (snd (g st')))"
      and 4: "sim (snd (seq fs (snd (f st)))) (snd (seq gs (snd (g st'))))"
      by (simp_all add: rel_step_def)
    show "fst (seq (f # fs) st) = fst (seq (g # gs) st') \<and>
          sim (snd (seq (f # fs) st)) (snd (seq (g # gs) st'))"
      using 1 2 3 4
      by (cases "f st"; cases "g st'") (auto split: sum.splits)
  qed
qed

lemma sections_loop_shape:
  "\<exists>r ms. \<forall>st. sections_loop pe h secs d st = (r, st\<lparr>moduleResult := moduleResult st @ ms\<rparr>)"
proof (induction secs arbitrary: d)
  case Nil
  show ?case
    by (intro exI [of _ "Inr d"] exI [of _ "[]"]) simp
next
  case (Cons s secs)
  show ?case
  proof (cases "get_data pe (sec_PointerToRawData s) (sec_SizeOfRawData s)")
    case (Inl e)
    then show ?thesis
      by (intro exI [of _ "Inl e"] exI [of _ "[]"]) simp
  next
    case (Inr secData)
    show ?thesis
    proof (cases "sec_VirtualAddress s")
      case None
      with Inr show ?thesis
        by (intro exI [of _ "Inl TypeError"] exI [of _ "[]"]) simp
    next
      case (Some va)
      from Cons.IH [of "AList.update (secName s) (PyDict (secInfo s va)) d"]
      obtain r ms where eq: "\<forall>st. sections_loop pe h secs
            (AList.update (secName s) (PyDict (secInfo s va)) d) st =
          (r, st\<lparr>moduleResult := moduleResult st @ ms\<rparr>)"
        by blast
      show ?thesis
      proof (cases "get_default (sec_MD5 s) [] \<noteq> h")
        case True
        with Inr Some eq show ?thesis
          by (intro exI [of _ r]
              exI [of _ "\<lparr>mo_buffer = secData, mo_filename = secName s\<rparr> # ms"]) simp
      next
        case False
        with Inr Some eq show ?thesis
          by (intro exI [of _ r] exI [of _ ms]) simp
      qed
    qed
  qed
qed

lemma rel_step_Sections: "rel_step (field_Sections pe scanObj dd) (field_Sections pe scanObj dd)"
proof -
  from sections_loop_shape [of pe "objectHash scanObj" "get_default (PE_Sections dd) []" "[]"]
  obtain r ms where eq: "\<forall>st. sections_loop pe (objectHash scanObj)
        (get_default (PE_Sections dd) []) [] st = (r, st\<lparr>moduleResult := moduleResult st @ ms\<rparr>)"
    by blast
  show ?thesis
  proof (cases r)
    case (Inl e)
    show ?thesis
      by (rule rel_step_shape [where r = "Inl e" and ms = ms and es = "[]"])
        (simp add: field_Sections_def andThen_def eq Inl)
  next
    case (Inr sections)
    show ?thesis
      by (rule rel_step_shape [where r = "Inr ()" and ms = ms and
            es = "[(self_module_name, ''Sections'',
                    PyDict (AList.update ''Total'' (PyInt (NumberOfSections pe)) sections))]"])
        (simp add: field_Sections_def andThen_def eq Inr addMetadata_def)
  qed
qed

lemma sections_loop_get_data:
  "get_data pe' = get_data pe \<Longrightarrow>
   sections_loop pe' h secs d st = sections_loop pe h secs d st"
  by (induction secs arbitrary: d st) (simp_all split: sum.splits option.splits)

lemma try_reraise_returns:
  "\<not> raises_cancellation (try_reraise m) \<Longrightarrow>
   fst (try_reraise m \<lparr>moduleResult = [], metadata = []\<rparr>) = Inr ()"
  by (auto simp: raises_cancellation_def try_reraise_def split: prod.splits sum.splits if_splits)

lemma try_except_returns: "fst (try_except m st) = Inr ()"
  by (simp add: try_except_def split: prod.splits sum.splits)

lemma fields_related:
  assumes e: "\<not> raises_cancellation (field_Exports pe)"
    and r: "\<not> raises_cancellation (field_Resources lib pe)"
    and e': "\<not> raises_cancellation
               (field_Exports (pe\<lparr>DIRECTORY_ENTRY_EXPORT := x, get_imphash := y,
                                   DIRECTORY_ENTRY_RESOURCE := z\<rparr>))"
    and r': "\<not> raises_cancellation
               (field_Resources lib (pe\<lparr>DIRECTORY_ENTRY_EXPORT := x, get_imphash := y,
                                          DIRECTORY_ENTRY_RESOURCE := z\<rparr>))"
  shows "list_all2 rel_step
           (fields lib (pe\<lparr>DIRECTORY_ENTRY_EXPORT := x, get_imphash := y,
                            DIRECTORY_ENTRY_RESOURCE := z\<rparr>) scanObj dd)
           (fields lib pe scanObj dd)"
proof -
  let ?pe = "pe\<lparr>DIRECTORY_ENTRY_EXPORT := x, get_imphash := y, DIRECTORY_ENTRY_RESOURCE := z\<rparr>"
  have S: "field_Sections ?pe scanObj dd = field_Sections pe scanObj dd"
    by (rule ext) (simp add: field_Sections_def andThen_def sections_loop_get_data [of ?pe pe])
  have others:
    "field_Date lib ?pe = field_Date lib pe"
    "field_MachineType lib ?pe = field_MachineType lib pe"
    "field_Subsystem lib ?pe = field_Subsystem lib pe"
    "field_StackHeap ?pe = field_StackHeap pe"
    "field_EntryPoint ?pe = field_EntryPoint pe"
    "field_ImageBase ?pe = field_ImageBase pe"
    "field_RichHeader ?pe = field_RichHeader pe"
    by (simp_all add: field_Date_def field_MachineType_def field_Subsystem_def
        field_StackHeap_def field_EntryPoint_def field_ImageBase_def field_RichHeader_def)
  have E: "rel_step (field_Exports ?pe) (field_Exports pe)"
    using e e'
    by (intro rel_step_guarded [OF writes_Exports writes_Exports])
      (simp_all add: guarded_keys_def field_Exports_def try_reraise_returns)
  have I: "rel_step (field_Imphash ?pe) (field_Imphash pe)"
    by (intro rel_step_guarded [OF writes_Imphash writes_Imphash])
      (simp_all add: guarded_keys_def field_Imphash_def try_except_returns)
  have R: "rel_step (field_Resources lib ?pe) (field_Resources lib pe)"
    using r r'
    by (intro rel_step_guarded [OF writes_Resources writes_Resources])
      (simp_all add: guarded_keys_def field_Resources_def try_reraise_returns)
  show ?thesis
    unfolding fields_def
    by (simp add: S others E I R rel_step_Sections
        rel_step_writes [OF writes_Imports] rel_step_writes [OF writes_ImageCharacteristics]
        rel_step_writes [OF writes_Date] rel_step_writes [OF writes_MachineType]
        rel_step_writes [OF writes_ImageMagic] rel_step_writes [OF writes_DLLCharacteristics]
        rel_step_writes [OF writes_Subsystem] rel_step_writes [OF writes_StackHeap]
        rel_step_writes [OF writes_EntryPoint] rel_step_writes [OF writes_ImageBase]
        rel_step_writes [OF writes_RSDS] rel_step_writes [OF writes_RichHeader])
qed

lemma run_result:
  "fst (META_PE_run lib pefile_PE scanObj) =
     (case try_body lib pefile_PE scanObj \<lparr>moduleResult = [], metadata = moduleMetadata scanObj\<rparr> of
        (Inl e, st) \<Rightarrow> if e = PEFormatError then Inr (moduleResult st) else Inl e
      | (Inr u, st) \<Rightarrow> Inr (moduleResult st))"
  by (simp add: META_PE_run_def split: prod.splits sum.splits)

text \<open>
  Claim C2, as the code has it. Only the computations of Exports, Imphash and Resources
  stand in \<^verbatim>\<open>try\<close> statements of their own. Take two runs on the same buffer whose PE
  objects differ only in what these three computations yield (a value or an exception,
  at any depth of the resource tree), none of them ending in a cancellation exception
  that the Exports or Resources block raises again. Both runs return the same result, and
  the metadata under every other key is the same, in the same order: a failure in one of
  the three fields neither stops nor changes any other field.
\<close>

theorem guarded_fields_do_not_interfere:
  assumes "pefile_PE (buffer scanObj) = Inr pe"
    and "pefile_PE' (buffer scanObj) =
           Inr (pe\<lparr>DIRECTORY_ENTRY_EXPORT := x, get_imphash := y, DIRECTORY_ENTRY_RESOURCE := z\<rparr>)"
    and "\<not> raises_cancellation (field_Exports pe)"
    and "\<not> raises_cancellation (field_Resources lib pe)"
    and "\<not> raises_cancellation
           (field_Exports (pe\<lparr>DIRECTORY_ENTRY_EXPORT := x, get_imphash := y,
                               DIRECTORY_ENTRY_RESOURCE := z\<rparr>))"
    and "\<not> raises_cancellation
           (field_Resources lib (pe\<lparr>DIRECTORY_ENTRY_EXPORT := x, get_imphash := y,
                                      DIRECTORY_ENTRY_RESOURCE := z\<rparr>))"
  shows "fst (META_PE_run lib pefile_PE' scanObj) = fst (META_PE_run lib pefile_PE scanObj) \<and>
         other_fields (snd (META_PE_run lib pefile_PE' scanObj)) =
         other_fields (snd (META_PE_run lib pefile_PE scanObj))"
proof -
  let ?pe = "pe\<lparr>DIRECTORY_ENTRY_EXPORT := x, get_imphash := y, DIRECTORY_ENTRY_RESOURCE := z\<rparr>"
  let ?st0 = "\<lparr>moduleResult = [], metadata = moduleMetadata scanObj\<rparr>"
  have rel: "fst (try_body lib pefile_PE' scanObj ?st0) = fst (try_body lib pefile_PE scanObj ?st0) \<and>
             sim (snd (try_body lib pefile_PE' scanObj ?st0)) (snd (try_body lib pefile_PE scanObj ?st0))"
  proof (cases "dump_dict pe")
    case (Inl e)
    then show ?thesis
      by (simp add: try_body_def assms(1,2) sim_refl)
  next
    case (Inr dd)
    have "rel_step (seq (fields lib ?pe scanObj dd)) (seq (fields lib pe scanObj dd))"
      by (rule rel_step_seq) (rule fields_related [OF assms(3-6)])
    then show ?thesis
      using sim_refl [of ?st0] by (simp add: try_body_def assms(1,2) Inr rel_step_def)
  qed
  obtain r st where a: "try_body lib pefile_PE scanObj ?st0 = (r, st)"
    by (cases "try_body lib pefile_PE scanObj ?st0")
  obtain r' st' where b: "try_body lib pefile_PE' scanObj ?st0 = (r', st')"
    by (cases "try_body lib pefile_PE' scanObj ?st0")
  from rel a b have "r' = r" "sim st' st"
    by simp_all
  then show ?thesis
    by (auto simp: run_result run_metadata other_fields_def a b sim_def split: sum.splits)
qed

theorem guarded_fields_do_not_interfere_witness:
  "fst (META_PE_run demo_library
          (\<lambda>b. Inr (demo_pe\<lparr>DIRECTORY_ENTRY_EXPORT := Inl AttributeError, get_imphash := Inl ValueError,
                               DIRECTORY_ENTRY_RESOURCE := Inl AttributeError\<rparr>)) demo_scanObject) =
   fst (META_PE_run demo_library (\<lambda>b. Inr demo_pe) demo_scanObject) \<and>
   other_fields (snd (META_PE_run demo_library
          (\<lambda>b. Inr (demo_pe\<lparr>DIRECTORY_ENTRY_EXPORT := Inl AttributeError, get_imphash := Inl ValueError,
                               DIRECTORY_ENTRY_RESOURCE := Inl AttributeError\<rparr>)) demo_scanObject)) =
   other_fields (snd (META_PE_run demo_library (\<lambda>b. Inr demo_pe) demo_scanObject)) \<and>
   keys_of (snd (META_PE_run demo_library
          (\<lambda>b. Inr (demo_pe\<lparr>DIRECTORY_ENTRY_EXPORT := Inl AttributeError, get_imphash := Inl ValueError,
                               DIRECTORY_ENTRY_RESOURCE := Inl AttributeError\<rparr>)) demo_scanObject)) =
     [''Sections'', ''Imports'', ''Image Characteristics'', ''Date'', ''Timestamp'',
      ''Machine Type'', ''Image Magic'', ''DLL Characteristics'', ''Subsystem'',
      ''Stack Reserve Size'', ''Stack Commit Size'', ''Heap Reserve Size'', ''Heap Commit Size'',
      ''EntryPoint'', ''ImageBase'', ''RSDS'', ''Rich Header'']"
proof -
  have 1: "\<not> raises_cancellation (field_Exports demo_pe)"
    by (simp add: raises_cancellation_def run_defs demo_defs)
  have 2: "\<not> raises_cancellation (field_Resources demo_library demo_pe)"
    by (simp add: raises_cancellation_def run_defs demo_defs)
  have 3: "\<not> raises_cancellation
           (field_Exports (demo_pe\<lparr>DIRECTORY_ENTRY_EXPORT := Inl AttributeError,
              get_imphash := Inl ValueError, DIRECTORY_ENTRY_RESOURCE := Inl AttributeError\<rparr>))"
    by (simp add: raises_cancellation_def run_defs)
  have 4: "\<not> raises_cancellation
           (field_Resources demo_library (demo_pe\<lparr>DIRECTORY_ENTRY_EXPORT := Inl AttributeError,
              get_imphash := Inl ValueError, DIRECTORY_ENTRY_RESOURCE := Inl AttributeError\<rparr>))"
    by (simp add: raises_cancellation_def run_defs)
  have keys: "keys_of (snd (META_PE_run demo_library
          (\<lambda>b. Inr (demo_pe\<lparr>DIRECTORY_ENTRY_EXPORT := Inl AttributeError, get_imphash := Inl ValueError,
                               DIRECTORY_ENTRY_RESOURCE := Inl AttributeError\<rparr>)) demo_scanObject)) =
     [''Sections'', ''Imports'', ''Image Characteristics'', ''Date'', ''Timestamp'',
      ''Machine Type'', ''Image Magic'', ''DLL Characteristics'', ''Subsystem'',
      ''Stack Reserve Size'', ''Stack Commit Size'', ''Heap Reserve Size'', ''Heap Commit Size'',
      ''EntryPoint'', ''ImageBase'', ''RSDS'', ''Rich Header'']"
    by (simp add: run_defs demo_defs)
  from guarded_fields_do_not_interfere [where pefile_PE = "\<lambda>b. Inr demo_pe"
      and pefile_PE' = "\<lambda>b. Inr (demo_pe\<lparr>DIRECTORY_ENTRY_EXPORT := Inl AttributeError,
              get_imphash := Inl ValueError, DIRECTORY_ENTRY_RESOURCE := Inl AttributeError\<rparr>)"
      and scanObj = demo_scanObject and lib = demo_library, OF refl refl 1 2 3 4]
  show ?thesis
    using keys by simp
qed

text \<open>
  The claim as stated fails for the other fields. On the demonstration PE all fields are
  added. When the dump has no imported symbols (a file without an import directory), the
  subscript \<^verbatim>\<open>dump_dict['Imported symbols']\<close> raises \<^verbatim>\<open>KeyError\<close>: the exception leaves
  \<^verbatim>\<open>_run\<close> and none of the fields after Imphash is added. When \<^verbatim>\<open>pe.get_data\<close> raises
  \<^verbatim>\<open>PEFormatError\<close> for the second section, the outer handler ends the extraction and no
  field at all is added.
\<close>

theorem unguarded_failure_counterexample:
  "keys_of (snd (META_PE_run demo_library (\<lambda>b. Inr demo_pe) demo_scanObject)) =
     [''Sections'', ''Exports'', ''Imphash'', ''Imports'', ''Image Characteristics'', ''Date'',
      ''Timestamp'', ''Machine Type'', ''Image Magic'', ''DLL Characteristics'', ''Subsystem'',
      ''Resources'', ''Stack Reserve Size'', ''Stack Commit Size'', ''Heap Reserve Size'',
      ''Heap Commit Size'', ''EntryPoint'', ''ImageBase'', ''RSDS'', ''Rich Header''] \<and>
   fst (META_PE_run demo_library
          (\<lambda>b. Inr (demo_pe\<lparr>dump_dict := Inr (demo_dump\<lparr>Imported_symbols := None\<rparr>)\<rparr>))
          demo_scanObject) = Inl KeyError \<and>
   keys_of (snd (META_PE_run demo_library
          (\<lambda>b. Inr (demo_pe\<lparr>dump_dict := Inr (demo_dump\<lparr>Imported_symbols := None\<rparr>)\<rparr>))
          demo_scanObject)) = [''Sections'', ''Exports'', ''Imphash''] \<and>
   META_PE_run demo_library
     (\<lambda>b. Inr (demo_pe\<lparr>get_data := \<lambda>p s. if p = Some 512 then Inr ''code'' else Inl PEFormatError\<rparr>))
     demo_scanObject =
     (Inr [\<lparr>mo_buffer = ''code'', mo_filename = ''.text''\<rparr>], demo_scanObject)"
proof (intro conjI)
  show "keys_of (snd (META_PE_run demo_library (\<lambda>b. Inr demo_pe) demo_scanObject)) =
     [''Sections'', ''Exports'', ''Imphash'', ''Imports'', ''Image Characteristics'', ''Date'',
      ''Timestamp'', ''Machine Type'', ''Image Magic'', ''DLL Characteristics'', ''Subsystem'',
      ''Resources'', ''Stack Reserve Size'', ''Stack Commit Size'', ''Heap Reserve Size'',
      ''Heap Commit Size'', ''EntryPoint'', ''ImageBase'', ''RSDS'', ''Rich Header'']"
    by (simp add: run_defs demo_defs)
  show "fst (META_PE_run demo_library
          (\<lambda>b. Inr (demo_pe\<lparr>dump_dict := Inr (demo_dump\<lparr>Imported_symbols := None\<rparr>)\<rparr>))
          demo_scanObject) = Inl KeyError"
    by (simp add: run_defs demo_defs)
  show "keys_of (snd (META_PE_run demo_library
          (\<lambda>b. Inr (demo_pe\<lparr>dump_dict := Inr (demo_dump\<lparr>Imported_symbols := None\<rparr>)\<rparr>))
          demo_scanObject)) = [''Sections'', ''Exports'', ''Imphash'']"
    by (simp add: run_defs demo_defs)
  show "META_PE_run demo_library
     (\<lambda>b. Inr (demo_pe\<lparr>get_data := \<lambda>p s. if p = Some 512 then Inr ''code'' else Inl PEFormatError\<rparr>))
     demo_scanObject =
     (Inr [\<lparr>mo_buffer = ''code'', mo_filename = ''.text''\<rparr>], demo_scanObject)"
    by (simp add: run_defs demo_defs)
qed

end
